theory Spec2Isabelle
  imports Complex_Main "HOL-Library.List_Lexorder" "HOL-Library.Char_ord"
begin

section \<open>Shared data model\<close>

text \<open>
  Python exceptions are values. Only the class and the message matter to the code
  (\<^verbatim>\<open>str(e)\<close> is the message). \<open>OtherError\<close> stands for any exception raised inside
  an external collaborator (the embedding model, the similarity index library, an LLM
  backend).
\<close>

datatype exn =
    RuntimeError string
  | ValueError string
  | IndexError string
  | AssertionError string
  | OtherError string

fun str_exn :: "exn \<Rightarrow> string" where
  "str_exn (RuntimeError m) = m"
| "str_exn (ValueError m) = m"
| "str_exn (IndexError m) = m"
| "str_exn (AssertionError m) = m"
| "str_exn (OtherError m) = m"

text \<open>
  The metadata dictionary of a chunk carries the keys \<^verbatim>\<open>source\<close>, \<^verbatim>\<open>page\<close> and
  \<^verbatim>\<open>chunk_index\<close> (\<^verbatim>\<open>PDFProcessor.chunk_text\<close>); a field is \<open>None\<close> when the key is
  absent, which is what \<^verbatim>\<open>dict.get\<close> observes.
\<close>

record metadata_dict =
  source :: "string option"
  page :: "int option"
  chunk_index :: "int option"

text \<open>\<^verbatim>\<open>DocumentChunk\<close> (pdf\_processor.py): a text and its metadata.\<close>

record DocumentChunk =
  "text" :: string
  metadata :: metadata_dict

text \<open>A record of the metadata log: \<^verbatim>\<open>{"id": ..., "text": ..., "metadata": ...}\<close>.\<close>

record document = DocumentChunk +
  doc_id :: string

text \<open>A query result: \<^verbatim>\<open>{"text": ..., "metadata": ..., "distance": ...}\<close>. The float
  score is abstracted as a real number; no statement below computes with it.\<close>

record retrieved = DocumentChunk +
  distance :: real

record Settings =
  gemini_api_key :: string
  openai_api_key :: string
  top_k_results :: int
  chroma_collection_name :: string

section \<open>LLM service (llm\_service.py)\<close>

definition SYSTEM_PROMPT :: string where
  "SYSTEM_PROMPT =
     ''You are a knowledgeable assistant that answers questions based ONLY on the provided context.\<newline>'' @
     ''\<newline>'' @
     ''Rules:\<newline>'' @
     ''1. Answer the question using ONLY the information from the context below.\<newline>'' @
     ''2. If the context does not contain enough information to answer the question, say so clearly.\<newline>'' @
     ''3. Be precise and concise in your answers.\<newline>'' @
     ''4. When possible, quote the relevant parts from the context.\<newline>'' @
     ''5. Answer in the same language as the question.''"

text \<open>\<^verbatim>\<open>USER_PROMPT_TEMPLATE.format(context=..., question=...)\<close>.\<close>

definition USER_PROMPT_TEMPLATE :: "string \<Rightarrow> string \<Rightarrow> string" where
  "USER_PROMPT_TEMPLATE context question =
     ''Context:\<newline>'' @ context @ ''\<newline>\<newline>---\<newline>\<newline>Question: '' @ question @
     ''\<newline>\<newline>Provide a precise answer based on the context above. Include relevant quotes as references.''"

text \<open>\<^verbatim>\<open>str\<close> of a Python integer, in decimal.\<close>

fun str_nat :: "nat \<Rightarrow> string" where
  "str_nat n =
     (if n < 10 then [''0123456789'' ! n]
      else str_nat (n div 10) @ [''0123456789'' ! (n mod 10)])"

definition str_int :: "int \<Rightarrow> string" where
  "str_int i = (if i < 0 then ''-'' @ str_nat (nat (- i)) else str_nat (nat i))"

text \<open>\<^verbatim>\<open>"\n\n".join(parts)\<close>.\<close>

fun join_parts :: "string list \<Rightarrow> string" where
  "join_parts [] = []"
| "join_parts [p] = p"
| "join_parts (p # ps) = p @ ''\<newline>\<newline>'' @ join_parts ps"

text \<open>One part of the context, for the chunk numbered \<open>i\<close> (counting from 1).\<close>

definition context_part :: "nat \<Rightarrow> retrieved \<Rightarrow> string" where
  "context_part i chunk =
     (let src = (case source (metadata chunk) of None \<Rightarrow> ''unknown'' | Some s \<Rightarrow> s);
          pg = (case page (metadata chunk) of None \<Rightarrow> ''?'' | Some p \<Rightarrow> str_int p)
      in ''[Source '' @ str_nat i @ '': '' @ src @ '', Page '' @ pg @ '']\<newline>'' @ text chunk)"

definition build_context :: "retrieved list \<Rightarrow> string" where
  "build_context context_chunks =
     join_parts (map (\<lambda>(i, chunk). context_part i chunk)
                     (zip [1 ..< Suc (length context_chunks)] context_chunks))"

text \<open>
  A provider object: its \<^verbatim>\<open>name\<close>, the value of \<^verbatim>\<open>is_available()\<close>, and
  \<^verbatim>\<open>generate(system_prompt, user_prompt)\<close>, which returns the answer text or raises.
  The network backends are external: what a backend answers is a parameter.
\<close>

record LLMProvider =
  name :: string
  is_available :: bool
  generate :: "string \<Rightarrow> string \<Rightarrow> exn + string"

record llm_backends =
  gemini_api :: "string \<Rightarrow> string \<Rightarrow> exn + string"
  openai_api :: "string \<Rightarrow> string \<Rightarrow> exn + string"

definition GeminiProvider :: "Settings \<Rightarrow> llm_backends \<Rightarrow> LLMProvider" where
  "GeminiProvider settings api =
     \<lparr>name = ''gemini'', is_available = (gemini_api_key settings \<noteq> ''''),
      generate = gemini_api api\<rparr>"

definition OpenAIProvider :: "Settings \<Rightarrow> llm_backends \<Rightarrow> LLMProvider" where
  "OpenAIProvider settings api =
     \<lparr>name = ''openai'', is_available = (openai_api_key settings \<noteq> ''''),
      generate = openai_api api\<rparr>"

text \<open>\<^verbatim>\<open>LLMService._init_providers\<close>: the registry, in priority order.\<close>

definition init_providers :: "Settings \<Rightarrow> llm_backends \<Rightarrow> LLMProvider list" where
  "init_providers settings api =
     filter is_available [GeminiProvider settings api, OpenAIProvider settings api]"

record answer_dict =
  answer :: string
  references :: "string list"

definition NO_DOCUMENTS_ANSWER :: string where
  "NO_DOCUMENTS_ANSWER =
     ''No relevant documents found to answer this question. '' @
     ''Please upload relevant documents first.''"

definition NO_PROVIDERS_MESSAGE :: string where
  "NO_PROVIDERS_MESSAGE =
     ''No LLM providers configured. '' @
     ''Set GEMINI_API_KEY or OPENAI_API_KEY in .env''"

definition not_available_message :: "string \<Rightarrow> string" where
  "not_available_message provider =
     ''Provider '' @ [CHR 0x27] @ provider @ [CHR 0x27] @ '' is not available. '' @
     ''Check that its API key is set in .env''"

definition all_failed_message :: "exn option \<Rightarrow> string" where
  "all_failed_message last_error =
     ''All LLM providers failed. Last error: '' @
     (case last_error of None \<Rightarrow> ''None'' | Some e \<Rightarrow> str_exn e)"

text \<open>
  The fallback loop of \<^verbatim>\<open>generate_answer\<close>. The last argument is the trace of provider
  invocations so far (the names, in the order of the calls); the result carries the
  trace at the end.
\<close>

fun try_providers ::
  "LLMProvider list \<Rightarrow> string \<Rightarrow> retrieved list \<Rightarrow> exn option \<Rightarrow> string list
   \<Rightarrow> (exn + answer_dict) \<times> string list" where
  "try_providers [] user_prompt context_chunks last_error calls =
     (Inl (RuntimeError (all_failed_message last_error)), calls)"
| "try_providers (provider # rest) user_prompt context_chunks last_error calls =
     (case generate provider SYSTEM_PROMPT user_prompt of
        Inr generated \<Rightarrow>
          (Inr \<lparr>answer = generated, references = map text context_chunks\<rparr>,
           calls @ [name provider])
      | Inl e \<Rightarrow>
          try_providers rest user_prompt context_chunks (Some e) (calls @ [name provider]))"

text \<open>
  The candidate list of \<^verbatim>\<open>generate_answer\<close> ("Determine which providers to try").
  The argument \<open>provider\<close> is \<^verbatim>\<open>str | None\<close>; \<^verbatim>\<open>if provider:\<close> is false for \<open>None\<close>
  and for the empty string.
\<close>

definition select_providers :: "LLMProvider list \<Rightarrow> string option \<Rightarrow> exn + LLMProvider list" where
  "select_providers providers provider =
     (case provider of
        None \<Rightarrow> Inr providers
      | Some p \<Rightarrow>
          (if p = [] then Inr providers
           else
             (let candidates = filter (\<lambda>q. name q = p) providers in
              if candidates = [] then Inl (RuntimeError (not_available_message p))
              else Inr candidates)))"

text \<open>
  \<^verbatim>\<open>LLMService.generate_answer\<close>. \<open>providers\<close> is \<^verbatim>\<open>self._providers\<close>. The second
  component of the result is the trace of provider invocations made by the call.
\<close>

definition generate_answer ::
  "LLMProvider list \<Rightarrow> string \<Rightarrow> retrieved list \<Rightarrow> string option
   \<Rightarrow> (exn + answer_dict) \<times> string list" where
  "generate_answer providers question context_chunks provider =
     (if context_chunks = [] then
        (Inr \<lparr>answer = NO_DOCUMENTS_ANSWER, references = []\<rparr>, [])
      else if providers = [] then
        (Inl (RuntimeError NO_PROVIDERS_MESSAGE), [])
      else
        (case select_providers providers provider of
           Inl e \<Rightarrow> (Inl e, [])
         | Inr candidates \<Rightarrow>
             (let user_prompt = USER_PROMPT_TEMPLATE (build_context context_chunks) question
              in try_providers candidates user_prompt context_chunks None [])))"

section \<open>Vector store (vector\_store.py, embeddings.py)\<close>

text \<open>
  A float32 vector is a list of reals (rounding is not modelled; nothing below depends
  on it), a two-dimensional array is the list of its rows.
\<close>

type_synonym vector = "real list"

text \<open>
  \<^verbatim>\<open>faiss.IndexFlatIP\<close>, of the similarity index library: the dimension it was
  created with and the vectors added so far, in insertion order. \<^verbatim>\<open>ntotal\<close> is their
  number.
\<close>

record IndexFlatIP =
  dimension :: nat
  vectors :: "vector list"

definition ntotal :: "IndexFlatIP \<Rightarrow> nat" where
  "ntotal ix = length (vectors ix)"

text \<open>
  The service object together with the two files it owns. \<open>index\<close> and \<open>documents\<close>
  are \<^verbatim>\<open>self._index\<close> and \<^verbatim>\<open>self._documents\<close>; \<open>index_file\<close> and \<open>meta_file\<close> are
  the contents of \<^verbatim>\<open>faiss.index\<close> and \<^verbatim>\<open>metadata.json\<close> (\<open>None\<close>: the file does not
  exist). \<open>encode_calls\<close> logs every batch handed to the embedding model, oldest
  first; \<open>uuids_drawn\<close> counts the calls of \<^verbatim>\<open>uuid.uuid4\<close>.
\<close>

record VectorStoreService =
  index :: "IndexFlatIP option"
  documents :: "document list"
  index_file :: "IndexFlatIP option"
  meta_file :: "document list option"
  encode_calls :: "string list list"
  uuids_drawn :: nat

text \<open>
  The external collaborators, as parameters. \<open>encode t texts\<close> is what
  \<^verbatim>\<open>SentenceTransformer.encode\<close> does on its call number \<open>t\<close>: it raises or returns
  an array. \<open>index_error t ncols\<close> is the exception, if any, with which constructing an
  index of dimension \<open>ncols\<close> fails after \<open>t\<close> embedding calls. \<open>inv_sqrt x\<close> is the
  float32 value of \<^verbatim>\<open>1.0 / sqrtf(x)\<close>. \<open>search vs q k\<close> is the
  result of the index's nearest-neighbour search for the query \<open>q\<close> over the stored
  vectors \<open>vs\<close>: pairs of score and position (a position of \<open>-1\<close> marks a missing
  neighbour). \<open>uuid4 n\<close> is the \<open>n\<close>-th identifier drawn.
\<close>

record environment =
  settings :: Settings
  encode :: "nat \<Rightarrow> string list \<Rightarrow> exn + vector list"
  index_error :: "nat \<Rightarrow> nat \<Rightarrow> exn option"
  inv_sqrt :: "real \<Rightarrow> real"
  search :: "vector list \<Rightarrow> vector \<Rightarrow> nat \<Rightarrow> (real \<times> int) list"
  uuid4 :: "nat \<Rightarrow> string"

text \<open>\<^verbatim>\<open>EmbeddingService.embed_texts\<close>.\<close>

definition embed_texts ::
  "environment \<Rightarrow> VectorStoreService \<Rightarrow> string list
   \<Rightarrow> (exn + vector list) \<times> VectorStoreService" where
  "embed_texts env s texts =
     (encode env (length (encode_calls s)) texts,
      s\<lparr>encode_calls := encode_calls s @ [texts]\<rparr>)"

text \<open>\<^verbatim>\<open>EmbeddingService.embed_query\<close>: encodes \<^verbatim>\<open>[query]\<close> and takes row 0.\<close>

definition embed_query ::
  "environment \<Rightarrow> VectorStoreService \<Rightarrow> string
   \<Rightarrow> (exn + vector) \<times> VectorStoreService" where
  "embed_query env s query_text =
     ((case encode env (length (encode_calls s)) [query_text] of
         Inl e \<Rightarrow> Inl e
       | Inr [] \<Rightarrow> Inl (IndexError ''index 0 is out of bounds for axis 0 with size 0'')
       | Inr (embedding # _) \<Rightarrow> Inr embedding),
      s\<lparr>encode_calls := encode_calls s @ [[query_text]]\<rparr>)"

text \<open>\<^verbatim>\<open>np.array(rows, dtype=np.float32)\<close>: rows of different lengths are refused.\<close>

definition np_array :: "vector list \<Rightarrow> exn + vector list" where
  "np_array rows =
     (if list_all (\<lambda>r. length r = length (hd rows)) rows then Inr rows
      else Inl (ValueError ''inhomogeneous shape''))"

text \<open>\<^verbatim>\<open>arr.shape[1]\<close>; an array built from no rows has the shape \<^verbatim>\<open>(0,)\<close>.\<close>

definition shape1 :: "vector list \<Rightarrow> exn + nat" where
  "shape1 rows =
     (case rows of
        [] \<Rightarrow> Inl (IndexError ''tuple index out of range'')
      | r # _ \<Rightarrow> Inr (length r))"

text \<open>\<^verbatim>\<open>faiss.normalize_L2\<close> on one row, in place: a row whose squared norm is not
  positive is left as it is, any other is scaled by the inverse of its norm.\<close>

definition normalize_L2 :: "environment \<Rightarrow> vector \<Rightarrow> vector" where
  "normalize_L2 env v =
     (let nr = sum_list (map (\<lambda>x. x * x) v)
      in if nr > 0 then map (\<lambda>x. x * inv_sqrt env nr) v else v)"

text \<open>\<^verbatim>\<open>faiss.IndexFlatIP(ncols)\<close>.\<close>

definition new_IndexFlatIP ::
  "environment \<Rightarrow> VectorStoreService \<Rightarrow> nat \<Rightarrow> exn + IndexFlatIP" where
  "new_IndexFlatIP env s ncols =
     (case index_error env (length (encode_calls s)) ncols of
        Some e \<Rightarrow> Inl e
      | None \<Rightarrow> Inr \<lparr>dimension = ncols, vectors = []\<rparr>)"

text \<open>\<^verbatim>\<open>index.add(x)\<close>: asserts that the rows have the index's dimension.\<close>

definition index_add :: "IndexFlatIP \<Rightarrow> vector list \<Rightarrow> exn + IndexFlatIP" where
  "index_add ix rows =
     (if list_all (\<lambda>r. length r = dimension ix) rows
      then Inr (ix\<lparr>vectors := vectors ix @ rows\<rparr>)
      else Inl (AssertionError []))"

text \<open>\<^verbatim>\<open>index.search(x, k)\<close> for a single query row.\<close>

definition index_search ::
  "environment \<Rightarrow> IndexFlatIP \<Rightarrow> vector \<Rightarrow> int \<Rightarrow> exn + (real \<times> int) list" where
  "index_search env ix xq k =
     (if length xq \<noteq> dimension ix then Inl (AssertionError [])
      else if k \<le> 0 then Inl (AssertionError [])
      else Inr (search env (vectors ix) xq (nat k)))"

text \<open>\<^verbatim>\<open>VectorStoreService._load\<close>.\<close>

definition load :: "VectorStoreService \<Rightarrow> VectorStoreService" where
  "load s =
     (case (index_file s, meta_file s) of
        (Some ix, Some docs) \<Rightarrow> s\<lparr>index := Some ix, documents := docs\<rparr>
      | _ \<Rightarrow> s\<lparr>index := None, documents := []\<rparr>)"

text \<open>The service constructed over an empty persistence directory.\<close>

definition init_store :: VectorStoreService where
  "init_store =
     load \<lparr>index = None, documents = [], index_file = None, meta_file = None,
           encode_calls = [], uuids_drawn = 0\<rparr>"

text \<open>\<^verbatim>\<open>VectorStoreService._save\<close>.\<close>

definition save :: "VectorStoreService \<Rightarrow> VectorStoreService" where
  "save s =
     (case index s of
        None \<Rightarrow> s
      | Some ix \<Rightarrow> s\<lparr>index_file := Some ix, meta_file := Some (documents s)\<rparr>)"

text \<open>\<^verbatim>\<open>VectorStoreService._ensure_index\<close>.\<close>

definition ensure_index ::
  "environment \<Rightarrow> VectorStoreService \<Rightarrow> nat \<Rightarrow> (exn + unit) \<times> VectorStoreService" where
  "ensure_index env s ncols =
     (case index s of
        None \<Rightarrow>
          (case new_IndexFlatIP env s ncols of
             Inl e \<Rightarrow> (Inl e, s)
           | Inr ix \<Rightarrow> (Inr (), s\<lparr>index := Some ix\<rparr>))
      | Some _ \<Rightarrow> (Inr (), s))"

text \<open>The records appended by \<^verbatim>\<open>add_chunks\<close>, the first with the \<open>n\<close>-th identifier.\<close>

fun new_documents ::
  "environment \<Rightarrow> nat \<Rightarrow> (string \<times> metadata_dict) list \<Rightarrow> document list" where
  "new_documents env n [] = []"
| "new_documents env n ((t, meta) # rest) =
     \<lparr>text = t, metadata = meta, doc_id = uuid4 env n\<rparr> # new_documents env (Suc n) rest"

text \<open>\<^verbatim>\<open>VectorStoreService.add_chunks\<close>.\<close>

definition add_chunks ::
  "environment \<Rightarrow> VectorStoreService \<Rightarrow> DocumentChunk list
   \<Rightarrow> (exn + nat) \<times> VectorStoreService" where
  "add_chunks env s chunks =
     (if chunks = [] then (Inr 0, s)
      else
        (let texts = map text chunks; metadatas = map metadata chunks in
         case embed_texts env s texts of
           (Inl e, s1) \<Rightarrow> (Inl e, s1)
         | (Inr embeddings, s1) \<Rightarrow>
             (case np_array embeddings of
                Inl e \<Rightarrow> (Inl e, s1)
              | Inr arr \<Rightarrow>
                  (let embeddings_np = map (normalize_L2 env) arr in
                   case shape1 embeddings_np of
                     Inl e \<Rightarrow> (Inl e, s1)
                   | Inr ncols \<Rightarrow>
                       (case ensure_index env s1 ncols of
                          (Inl e, s2) \<Rightarrow> (Inl e, s2)
                        | (Inr _, s2) \<Rightarrow>
                            (case index s2 of
                               None \<Rightarrow> (Inl (OtherError ''AttributeError''), s2)
                             | Some ix \<Rightarrow>
                                 (case index_add ix embeddings_np of
                                    Inl e \<Rightarrow> (Inl e, s2)
                                  | Inr ix' \<Rightarrow>
                                      (Inr (length chunks),
                                       save (s2\<lparr>index := Some ix',
                                                documents := documents s2 @
                                                  new_documents env (uuids_drawn s2)
                                                    (zip texts metadatas),
                                                uuids_drawn := uuids_drawn s2 +
                                                  length (zip texts metadatas)\<rparr>)))))))))"

text \<open>The formatting loop of \<^verbatim>\<open>query\<close> over \<^verbatim>\<open>zip(distances[0], indices[0])\<close>.\<close>

fun format_results :: "document list \<Rightarrow> (real \<times> int) list \<Rightarrow> retrieved list" where
  "format_results docs [] = []"
| "format_results docs ((score, idx) # rest) =
     (if idx < 0 \<or> idx \<ge> int (length docs) then format_results docs rest
      else \<lparr>text = text (docs ! nat idx), metadata = metadata (docs ! nat idx),
            distance = score\<rparr> # format_results docs rest)"

text \<open>\<^verbatim>\<open>VectorStoreService.query\<close>; \<^verbatim>\<open>top_k or settings.top_k_results\<close> takes the
  default for \<open>None\<close> and for 0.\<close>

definition query ::
  "environment \<Rightarrow> VectorStoreService \<Rightarrow> string \<Rightarrow> int option
   \<Rightarrow> (exn + retrieved list) \<times> VectorStoreService" where
  "query env s question top_k =
     (let top_k1 = (case top_k of
                      None \<Rightarrow> top_k_results (settings env)
                    | Some k \<Rightarrow> if k = 0 then top_k_results (settings env) else k) in
      case index s of
        None \<Rightarrow> (Inr [], s)
      | Some ix \<Rightarrow>
          (if ntotal ix = 0 then (Inr [], s)
           else
             (let top_k2 = min top_k1 (int (ntotal ix)) in
              case embed_query env s question of
                (Inl e, s1) \<Rightarrow> (Inl e, s1)
              | (Inr query_embedding, s1) \<Rightarrow>
                  (let query_np = normalize_L2 env query_embedding in
                   case index_search env ix query_np top_k2 of
                     Inl e \<Rightarrow> (Inl e, s1)
                   | Inr hits \<Rightarrow> (Inr (format_results (documents s1) hits), s1)))))"

text \<open>\<^verbatim>\<open>VectorStoreService.list_documents\<close>: the set of the sources, without the
  falsy ones (\<open>None\<close> and the empty string), sorted.\<close>

definition list_documents :: "VectorStoreService \<Rightarrow> string list" where
  "list_documents s =
     (if documents s = [] then []
      else
        (let sources = remdups (map (\<lambda>doc. source (metadata doc)) (documents s))
         in sort (concat (map (\<lambda>x. case x of None \<Rightarrow> []
                                      | Some n \<Rightarrow> if n = [] then [] else [n]) sources))))"

record collection_stats =
  collection_name :: string
  total_documents :: nat
  total_chunks :: nat

text \<open>\<^verbatim>\<open>VectorStoreService.get_collection_stats\<close>.\<close>

definition get_collection_stats :: "environment \<Rightarrow> VectorStoreService \<Rightarrow> collection_stats" where
  "get_collection_stats env s =
     (let count = (case index s of None \<Rightarrow> 0 | Some ix \<Rightarrow> ntotal ix) in
      \<lparr>collection_name = chroma_collection_name (settings env),
       total_documents = length (list_documents s),
       total_chunks = count\<rparr>)"

text \<open>\<^verbatim>\<open>VectorStoreService.reset_collection\<close>.\<close>

definition reset_collection :: "VectorStoreService \<Rightarrow> VectorStoreService" where
  "reset_collection s =
     s\<lparr>index := None, documents := [], index_file := None, meta_file := None\<rparr>"

text \<open>\<^verbatim>\<open>VectorStoreService.delete_document\<close>.\<close>

definition delete_document ::
  "environment \<Rightarrow> VectorStoreService \<Rightarrow> string \<Rightarrow> (exn + bool) \<times> VectorStoreService" where
  "delete_document env s source_name =
     (if index s = None \<or> documents s = [] then (Inr False, s)
      else
        (let new_docs = filter (\<lambda>doc. source (metadata doc) \<noteq> Some source_name)
                               (documents s) in
         if length new_docs = length (documents s) then (Inr False, s)
         else if new_docs = [] then (Inr True, reset_collection s)
         else
           (let texts = map text new_docs in
            case embed_texts env s texts of
              (Inl e, s1) \<Rightarrow> (Inl e, s1)
            | (Inr embeddings, s1) \<Rightarrow>
                (case np_array embeddings of
                   Inl e \<Rightarrow> (Inl e, s1)
                 | Inr arr \<Rightarrow>
                     (let embeddings_np = map (normalize_L2 env) arr in
                      case shape1 embeddings_np of
                        Inl e \<Rightarrow> (Inl e, s1)
                      | Inr ncols \<Rightarrow>
                          (case new_IndexFlatIP env s1 ncols of
                             Inl e \<Rightarrow> (Inl e, s1)
                           | Inr ix0 \<Rightarrow>
                               (case index_add ix0 embeddings_np of
                                  Inl e \<Rightarrow> (Inl e, s1\<lparr>index := Some ix0\<rparr>)
                                | Inr ix \<Rightarrow>
                                    (Inr True,
                                     save (s1\<lparr>index := Some ix,
                                              documents := new_docs\<rparr>)))))))))"

text \<open>
  A caller's view of the store: a sequence of mutating operations. An operation that
  raises leaves the service object alive (the HTTP layer catches the exception), so
  the next operation runs on the state the failed one left.
\<close>

datatype operation =
    Add "DocumentChunk list"
  | Delete string
  | Reset

fun step :: "environment \<Rightarrow> VectorStoreService \<Rightarrow> operation \<Rightarrow> VectorStoreService" where
  "step env s (Add chunks) = snd (add_chunks env s chunks)"
| "step env s (Delete source_name) = snd (delete_document env s source_name)"
| "step env s Reset = reset_collection s"

definition run :: "environment \<Rightarrow> VectorStoreService \<Rightarrow> operation list \<Rightarrow> VectorStoreService" where
  "run env s ops = foldl (step env) s ops"

section \<open>Notions used to state the properties\<close>

text \<open>
  The contract of the embedding collaborator (\<^verbatim>\<open>embed_many\<close>): a batch that is
  embedded yields one vector per text.
\<close>

definition one_row_per_text :: "environment \<Rightarrow> bool" where
  "one_row_per_text env =
     (\<forall>t texts rows. encode env t texts = Inr rows \<longrightarrow> length rows = length texts)"

text \<open>
  The embedding model has the dimension \<open>d\<close>: a batch that is embedded yields one
  vector of length \<open>d\<close> per text.
\<close>

definition fixed_dimension :: "environment \<Rightarrow> nat \<Rightarrow> bool" where
  "fixed_dimension env d =
     (\<forall>t texts rows. encode env t texts = Inr rows \<longrightarrow>
        length rows = length texts \<and> list_all (\<lambda>r. length r = d) rows)"

text \<open>The index of the store, if there is one, has the dimension \<open>d\<close>.\<close>

definition index_dimension :: "nat \<Rightarrow> VectorStoreService \<Rightarrow> bool" where
  "index_dimension d s = (case index s of None \<Rightarrow> True | Some ix \<Rightarrow> dimension ix = d)"

text \<open>
  The stronger contract that the vector of a text does not depend on the batch or on the
  time of the call: whenever the model answers, row \<open>i\<close> is \<open>f\<close> of text \<open>i\<close>.
\<close>

definition pointwise_encoder :: "environment \<Rightarrow> (string \<Rightarrow> vector) \<Rightarrow> bool" where
  "pointwise_encoder env f =
     (\<forall>t texts rows. encode env t texts = Inr rows \<longrightarrow> rows = map f texts)"

text \<open>
  Positional coupling of the index and the metadata log: without an index the log is
  empty; with one, both have the same length and the vector at position \<open>i\<close> is the
  normalised embedding of the text of record \<open>i\<close>.
\<close>

definition coupled :: "environment \<Rightarrow> (string \<Rightarrow> vector) \<Rightarrow> VectorStoreService \<Rightarrow> bool" where
  "coupled env f s =
     (case index s of
        None \<Rightarrow> documents s = []
      | Some ix \<Rightarrow>
          ntotal ix = length (documents s) \<and>
          (\<forall>i < length (documents s).
             vectors ix ! i = normalize_L2 env (f (text (documents s ! i)))))"

text \<open>
  The contract of the index's search: asked for \<open>k > 0\<close> neighbours it returns exactly
  \<open>k\<close> pairs, by descending score.
\<close>

definition search_contract :: "environment \<Rightarrow> bool" where
  "search_contract env =
     (\<forall>vs q k. 0 < k \<longrightarrow>
        length (search env vs q k) = k \<and>
        sorted_wrt (\<lambda>a b. b \<le> a) (map fst (search env vs q k)))"

text \<open>A hit whose position has a record in the log, and the result made from it.\<close>

definition in_range :: "document list \<Rightarrow> real \<times> int \<Rightarrow> bool" where
  "in_range docs hit = (0 \<le> snd hit \<and> snd hit < int (length docs))"

definition result_of :: "document list \<Rightarrow> real \<times> int \<Rightarrow> retrieved" where
  "result_of docs hit =
     \<lparr>text = text (docs ! nat (snd hit)), metadata = metadata (docs ! nat (snd hit)),
      distance = fst hit\<rparr>"

text \<open>A provider fails on a prompt when its \<^verbatim>\<open>generate\<close> raises.\<close>

definition provider_fails :: "string \<Rightarrow> LLMProvider \<Rightarrow> bool" where
  "provider_fails user_prompt p = isl (generate p SYSTEM_PROMPT user_prompt)"

section \<open>Concrete inputs\<close>

definition example_settings :: Settings where
  "example_settings =
     \<lparr>gemini_api_key = ''key-1'', openai_api_key = [], top_k_results = 3,
      chroma_collection_name = ''tractian_documents''\<rparr>"

definition example_embedding :: "string \<Rightarrow> vector" where
  "example_embedding t = (if even (length t) then [1, 0] else [0, 1])"

definition example_env :: environment where
  "example_env =
     \<lparr>settings = example_settings,
      encode = (\<lambda>t texts. Inr (map example_embedding texts)),
      index_error = (\<lambda>t n. None),
      inv_sqrt = (\<lambda>x. 1),
      search = (\<lambda>vs q k. map (\<lambda>i. (- real i, if i < length vs then int i else - 1)) [0..<k]),
      uuid4 = (\<lambda>n. ''uuid-'' @ str_nat n)\<rparr>"

text \<open>An environment whose embedding model raises, and one that cannot build an index.\<close>

definition failing_encoder_env :: environment where
  "failing_encoder_env =
     example_env\<lparr>encode := (\<lambda>t texts. Inl (OtherError ''model not loaded''))\<rparr>"

definition failing_index_env :: environment where
  "failing_index_env =
     example_env\<lparr>index_error := (\<lambda>t n. Some (OtherError ''out of memory''))\<rparr>"

definition example_chunk1 :: DocumentChunk where
  "example_chunk1 =
     \<lparr>text = ''The motor draws 5A.'',
      metadata = \<lparr>source = Some ''spec.pdf'', page = Some 1, chunk_index = Some 0\<rparr>\<rparr>"

definition example_chunk2 :: DocumentChunk where
  "example_chunk2 =
     \<lparr>text = ''Torque: 12 Nm.'',
      metadata = \<lparr>source = Some ''b.pdf'', page = Some 2, chunk_index = Some 0\<rparr>\<rparr>"

definition example_doc1 :: document where
  "example_doc1 =
     \<lparr>text = ''The motor draws 5A.'',
      metadata = \<lparr>source = Some ''spec.pdf'', page = Some 1, chunk_index = Some 0\<rparr>,
      doc_id = ''uuid-0''\<rparr>"

definition example_doc2 :: document where
  "example_doc2 =
     \<lparr>text = ''Torque: 12 Nm.'',
      metadata = \<lparr>source = Some ''b.pdf'', page = Some 2, chunk_index = Some 0\<rparr>,
      doc_id = ''uuid-1''\<rparr>"

text \<open>The store after both chunks were added to the empty store.\<close>

definition example_store :: VectorStoreService where
  "example_store =
     \<lparr>index = Some \<lparr>dimension = 2, vectors = [[0, 1], [1, 0]]\<rparr>,
      documents = [example_doc1, example_doc2],
      index_file = Some \<lparr>dimension = 2, vectors = [[0, 1], [1, 0]]\<rparr>,
      meta_file = Some [example_doc1, example_doc2],
      encode_calls = [[''The motor draws 5A.'', ''Torque: 12 Nm.'']],
      uuids_drawn = 2\<rparr>"

text \<open>A store loaded from files that disagree: two vectors, one record.\<close>

definition stale_store :: VectorStoreService where
  "stale_store = example_store\<lparr>documents := [example_doc1]\<rparr>"

definition example_retrieved :: retrieved where
  "example_retrieved =
     \<lparr>text = ''The motor draws 5A.'',
      metadata = \<lparr>source = Some ''spec.pdf'', page = Some 1, chunk_index = Some 0\<rparr>,
      distance = 0\<rparr>"

text \<open>Backends: Gemini raises, OpenAI answers; and both raise.\<close>

definition gemini_down :: llm_backends where
  "gemini_down =
     \<lparr>gemini_api = (\<lambda>sp up. Inl (OtherError ''quota exceeded'')),
      openai_api = (\<lambda>sp up. Inr ''The motor draws 5A.'')\<rparr>"

definition all_down :: llm_backends where
  "all_down =
     \<lparr>gemini_api = (\<lambda>sp up. Inl (OtherError ''quota exceeded'')),
      openai_api = (\<lambda>sp up. Inl (OtherError ''timeout''))\<rparr>"

definition both_keys :: Settings where
  "both_keys = example_settings\<lparr>openai_api_key := ''key-2''\<rparr>"

text \<open>The store after the records of \<^verbatim>\<open>b.pdf\<close> were deleted from it.\<close>

definition single_store :: VectorStoreService where
  "single_store =
     \<lparr>index = Some \<lparr>dimension = 2, vectors = [[0, 1]]\<rparr>,
      documents = [example_doc1],
      index_file = Some \<lparr>dimension = 2, vectors = [[0, 1]]\<rparr>,
      meta_file = Some [example_doc1],
      encode_calls = [[''The motor draws 5A.'', ''Torque: 12 Nm.''], [''The motor draws 5A.'']],
      uuids_drawn = 2\<rparr>"

section \<open>Properties\<close>

subsection \<open>Facts about the helpers of the store\<close>

lemma length_new_documents: "length (new_documents env n xs) = length xs"
  by (induction env n xs rule: new_documents.induct) simp_all

lemma map_text_new_documents: "map text (new_documents env n xs) = map fst xs"
  by (induction env n xs rule: new_documents.induct) simp_all

lemma map_metadata_new_documents: "map metadata (new_documents env n xs) = map snd xs"
  by (induction env n xs rule: new_documents.induct) simp_all

lemma length_normalize_L2: "length (normalize_L2 env v) = length v"
  by (simp add: normalize_L2_def Let_def)

lemma np_array_Inr: "np_array rows = Inr arr \<Longrightarrow> arr = rows \<and> (\<forall>r \<in> set rows. length r = length (hd rows))"
  by (auto simp: np_array_def list_all_iff split: if_splits)

lemma index_add_fresh:
  assumes "np_array rows = Inr arr" "shape1 (map (normalize_L2 env) arr) = Inr n"
  shows "index_add \<lparr>dimension = n, vectors = []\<rparr> (map (normalize_L2 env) arr) =
           Inr \<lparr>dimension = n, vectors = map (normalize_L2 env) arr\<rparr>"
proof -
  from assms(1) have arr: "arr = rows" and rect: "\<forall>r \<in> set rows. length r = length (hd rows)"
    using np_array_Inr by blast+
  from assms(2) arr obtain r rs where rows: "rows = r # rs" and n: "n = length r"
    by (auto simp: shape1_def length_normalize_L2 split: list.splits)
  with rect have "\<forall>x \<in> set rows. length x = n" by simp
  then show ?thesis
    by (simp add: index_add_def list_all_iff length_normalize_L2 arr)
qed

subsection \<open>What \<^verbatim>\<open>add_chunks\<close> and \<^verbatim>\<open>delete_document\<close> do, case by case\<close>

lemma add_chunks_empty: "add_chunks env s [] = (Inr 0, s)"
  by (simp add: add_chunks_def)

lemma add_chunks_Inl:
  assumes "add_chunks env s chunks = (Inl e, s')"
  shows "index s' = index s \<and> documents s' = documents s \<and>
         index_file s' = index_file s \<and> meta_file s' = meta_file s"
proof (cases "chunks = []")
  case True
  with assms show ?thesis by (auto simp: add_chunks_def Let_def)
next
  case False
  obtain r s1 where et: "embed_texts env s (map text chunks) = (r, s1)" by force
  then have s1: "s1 = s\<lparr>encode_calls := encode_calls s @ [map text chunks]\<rparr>"
    by (auto simp: embed_texts_def)
  show ?thesis
  proof (cases r)
    case (Inl e1)
    with assms False et s1 show ?thesis by (auto simp: add_chunks_def Let_def)
  next
    case (Inr rows)
    show ?thesis
    proof (cases "np_array rows")
      case (Inl e1)
      with assms False et s1 Inr show ?thesis by (auto simp: add_chunks_def Let_def)
    next
      case arr: (Inr arr)
      show ?thesis
      proof (cases "shape1 (map (normalize_L2 env) arr)")
        case (Inl e1)
        with assms False et s1 Inr arr show ?thesis by (auto simp: add_chunks_def Let_def)
      next
        case n: (Inr n)
        show ?thesis
        proof (cases "index s")
          case None
          show ?thesis
          proof (cases "new_IndexFlatIP env s1 n")
            case (Inl e1)
            with assms False et s1 Inr arr n None show ?thesis
              by (auto simp: add_chunks_def ensure_index_def Let_def)
          next
            case ix: (Inr ix0)
            then have "ix0 = \<lparr>dimension = n, vectors = []\<rparr>"
              by (auto simp: new_IndexFlatIP_def split: option.splits)
            with index_add_fresh[OF arr n] assms False et s1 Inr arr n None ix show ?thesis
              by (auto simp: add_chunks_def ensure_index_def Let_def)
          qed
        next
          case (Some ix)
          with assms False et s1 Inr arr n show ?thesis
            by (auto simp: add_chunks_def ensure_index_def Let_def split: sum.splits)
        qed
      qed
    qed
  qed
qed

lemma add_chunks_Inr:
  assumes "add_chunks env s chunks = (Inr n, s')" "chunks \<noteq> []"
  shows "\<exists>rows ix. encode env (length (encode_calls s)) (map text chunks) = Inr rows \<and>
           index s' = Some ix \<and>
           vectors ix = (case index s of None \<Rightarrow> [] | Some i0 \<Rightarrow> vectors i0) @
                          map (normalize_L2 env) rows \<and>
           documents s' = documents s @
              new_documents env (uuids_drawn s) (zip (map text chunks) (map metadata chunks)) \<and>
           n = length chunks \<and> index_file s' = Some ix \<and> meta_file s' = Some (documents s')"
  using assms
  by (auto simp: add_chunks_def Let_def embed_texts_def ensure_index_def new_IndexFlatIP_def
        index_add_def save_def np_array_def
      split: sum.splits option.splits if_splits prod.splits)

lemma add_chunks_encode_fails:
  assumes "chunks \<noteq> []" "encode env (length (encode_calls s)) (map text chunks) = Inl e"
  shows "fst (add_chunks env s chunks) = Inl e"
  using assms by (simp add: add_chunks_def Let_def embed_texts_def)

lemma add_chunks_index_creation_fails:
  assumes "chunks \<noteq> []" "index s = None"
    "encode env (length (encode_calls s)) (map text chunks) = Inr (r # rs)"
    "np_array (r # rs) = Inr (r # rs)"
    "index_error env (Suc (length (encode_calls s))) (length r) = Some e"
  shows "fst (add_chunks env s chunks) = Inl e"
  using assms
  by (simp add: add_chunks_def Let_def embed_texts_def shape1_def ensure_index_def
        new_IndexFlatIP_def length_normalize_L2)

lemma add_chunks_returns:
  assumes ne: "chunks \<noteq> []"
    and enc: "encode env (length (encode_calls s)) (map text chunks) = Inr rows"
    and len: "length rows = length chunks"
    and rect: "list_all (\<lambda>r. length r = d) rows"
    and ix: "case index s of
               None \<Rightarrow> index_error env (Suc (length (encode_calls s))) d = None
             | Some ix \<Rightarrow> dimension ix = d"
  shows "fst (add_chunks env s chunks) = Inr (length chunks)"
proof -
  from ne len obtain r rs where rows: "rows = r # rs" by (cases rows) auto
  from rect rows have all_d: "\<forall>x \<in> set rows. length x = d" and r: "length r = d"
    by (simp_all add: list_all_iff)
  have np: "np_array rows = Inr rows"
    using all_d r rows by (simp add: np_array_def list_all_iff)
  have sh: "shape1 (map (normalize_L2 env) rows) = Inr d"
    using rows r by (simp add: shape1_def length_normalize_L2)
  have norm_d: "list_all (\<lambda>x. length x = d) (map (normalize_L2 env) rows)"
    using all_d by (simp add: list_all_iff length_normalize_L2)
  show ?thesis
  proof (cases "index s")
    case None
    with ix have "index_error env (Suc (length (encode_calls s))) d = None" by simp
    with None ne enc np sh norm_d show ?thesis
      by (simp add: add_chunks_def Let_def embed_texts_def ensure_index_def
            new_IndexFlatIP_def index_add_def)
  next
    case (Some ix0)
    with ix have "dimension ix0 = d" by simp
    with Some ne enc np sh norm_d show ?thesis
      by (simp add: add_chunks_def Let_def embed_texts_def ensure_index_def index_add_def)
  qed
qed

lemma add_chunks_dimension:
  assumes "add_chunks env s chunks = (Inr n, s')" "chunks \<noteq> []"
  shows "\<exists>rows ix. encode env (length (encode_calls s)) (map text chunks) = Inr rows \<and>
           index s' = Some ix \<and>
           (case index s of
              None \<Rightarrow> shape1 (map (normalize_L2 env) rows) = Inr (dimension ix)
            | Some i0 \<Rightarrow> dimension ix = dimension i0)"
  using assms
  by (auto simp: add_chunks_def Let_def embed_texts_def ensure_index_def new_IndexFlatIP_def
        index_add_def save_def np_array_def
      split: sum.splits option.splits if_splits prod.splits)

lemma delete_document_not_found:
  assumes "index s = None \<or> documents s = [] \<or>
           length (filter (\<lambda>doc. source (metadata doc) \<noteq> Some source_name) (documents s)) =
             length (documents s)"
  shows "delete_document env s source_name = (Inr False, s)"
  using assms by (auto simp: delete_document_def Let_def)

lemma delete_document_all:
  assumes "index s \<noteq> None" "documents s \<noteq> []"
          "filter (\<lambda>doc. source (metadata doc) \<noteq> Some source_name) (documents s) = []"
  shows "delete_document env s source_name = (Inr True, reset_collection s)"
  using assms by (auto simp: delete_document_def Let_def)

lemma delete_document_cases:
  assumes "delete_document env s source_name = (r, s')"
  shows "(r = Inr False \<and> s' = s \<and>
            (index s = None \<or> documents s = [] \<or>
             (\<forall>doc \<in> set (documents s). source (metadata doc) \<noteq> Some source_name))) \<or>
         (r = Inr True \<and> s' = reset_collection s \<and> documents s \<noteq> [] \<and> index s \<noteq> None \<and>
            filter (\<lambda>doc. source (metadata doc) \<noteq> Some source_name) (documents s) = []) \<or>
         ((\<exists>e. r = Inl e) \<and> index s' = index s \<and> documents s' = documents s \<and>
            index_file s' = index_file s \<and> meta_file s' = meta_file s) \<or>
         (r = Inr True \<and>
            (\<exists>rows ix. encode env (length (encode_calls s))
                 (map text (filter (\<lambda>doc. source (metadata doc) \<noteq> Some source_name) (documents s)))
                   = Inr rows \<and>
               index s' = Some ix \<and> vectors ix = map (normalize_L2 env) rows \<and>
               shape1 (map (normalize_L2 env) rows) = Inr (dimension ix) \<and>
               documents s' = filter (\<lambda>doc. source (metadata doc) \<noteq> Some source_name) (documents s) \<and>
               documents s' \<noteq> [] \<and>
               index_file s' = Some ix \<and> meta_file s' = Some (documents s')))"
proof -
  let ?new = "filter (\<lambda>doc. source (metadata doc) \<noteq> Some source_name) (documents s)"
  let ?s1 = "s\<lparr>encode_calls := encode_calls s @ [map text ?new]\<rparr>"
  consider (a) "index s = None \<or> documents s = [] \<or> length ?new = length (documents s)"
    | (b) "index s \<noteq> None" "documents s \<noteq> []" "length ?new \<noteq> length (documents s)" "?new = []"
    | (c) "index s \<noteq> None" "documents s \<noteq> []" "length ?new \<noteq> length (documents s)" "?new \<noteq> []"
    by blast
  then show ?thesis
  proof cases
    case a
    have "\<forall>doc \<in> set (documents s). source (metadata doc) \<noteq> Some source_name"
      if "length ?new = length (documents s)"
      using that length_filter_less[of _ "documents s" "\<lambda>doc. source (metadata doc) \<noteq> Some source_name"]
      by fastforce
    with a have "index s = None \<or> documents s = [] \<or>
             (\<forall>doc \<in> set (documents s). source (metadata doc) \<noteq> Some source_name)"
      by blast
    with delete_document_not_found[OF a] assms show ?thesis by simp
  next
    case b
    from delete_document_all[OF b(1,2,4)] assms b show ?thesis by simp
  next
    case c
    show ?thesis
    proof (cases "encode env (length (encode_calls s)) (map text ?new)")
      case (Inl e)
      with assms c show ?thesis
        by (auto simp: delete_document_def Let_def embed_texts_def)
    next
      case (Inr rows)
      show ?thesis
      proof (cases "np_array rows")
        case (Inl e)
        with assms c Inr show ?thesis
          by (auto simp: delete_document_def Let_def embed_texts_def)
      next
        case arr: (Inr arr)
        then have [simp]: "arr = rows" using np_array_Inr by blast
        show ?thesis
        proof (cases "shape1 (map (normalize_L2 env) arr)")
          case (Inl e)
          with assms c Inr arr show ?thesis
            by (auto simp: delete_document_def Let_def embed_texts_def)
        next
          case n: (Inr n)
          show ?thesis
          proof (cases "new_IndexFlatIP env ?s1 n")
            case (Inl e)
            with assms c Inr arr n show ?thesis
              by (auto simp: delete_document_def Let_def embed_texts_def)
          next
            case ix: (Inr ix0)
            then have "ix0 = \<lparr>dimension = n, vectors = []\<rparr>"
              by (auto simp: new_IndexFlatIP_def split: option.splits)
            with index_add_fresh[OF arr n] assms c Inr arr n ix show ?thesis
              by (auto simp: delete_document_def Let_def embed_texts_def save_def)
          qed
        qed
      qed
    qed
  qed
qed

subsection \<open>The positional coupling is preserved\<close>

lemma coupled_iff:
  "coupled env f s =
     (case index s of
        None \<Rightarrow> documents s = []
      | Some ix \<Rightarrow> vectors ix = map (\<lambda>doc. normalize_L2 env (f (text doc))) (documents s))"
proof (cases "index s")
  case None
  then show ?thesis by (simp add: coupled_def)
next
  case (Some ix)
  let ?g = "\<lambda>doc. normalize_L2 env (f (text doc))"
  have "(vectors ix = map ?g (documents s)) =
        (length (vectors ix) = length (documents s) \<and>
         (\<forall>i < length (documents s). vectors ix ! i = ?g (documents s ! i)))"
    by (subst list_eq_iff_nth_eq) auto
  with Some show ?thesis by (simp add: coupled_def ntotal_def)
qed

lemma pointwise_one_row: "pointwise_encoder env f \<Longrightarrow> one_row_per_text env"
  unfolding pointwise_encoder_def one_row_per_text_def by (metis length_map)

lemma coupled_init: "coupled env f init_store"
  by (simp add: coupled_def init_store_def load_def)

lemma coupled_reset: "coupled env f (reset_collection s)"
  by (simp add: coupled_def reset_collection_def)

lemma coupled_add:
  assumes enc: "pointwise_encoder env f" and inv: "coupled env f s"
  shows "coupled env f (snd (add_chunks env s chunks))"
proof (cases "chunks = []")
  case True
  with inv show ?thesis by (simp add: add_chunks_def)
next
  case False
  obtain r s' where res: "add_chunks env s chunks = (r, s')" by force
  show ?thesis
  proof (cases r)
    case (Inl e)
    with res have "index s' = index s \<and> documents s' = documents s"
      using add_chunks_Inl by blast
    with inv res show ?thesis by (auto simp: coupled_iff split: option.splits)
  next
    case (Inr n)
    with res False obtain rows ix where
      rows: "encode env (length (encode_calls s)) (map text chunks) = Inr rows" and
      ix: "index s' = Some ix" and
      vs: "vectors ix = (case index s of None \<Rightarrow> [] | Some i0 \<Rightarrow> vectors i0) @
                          map (normalize_L2 env) rows" and
      docs: "documents s' = documents s @
              new_documents env (uuids_drawn s) (zip (map text chunks) (map metadata chunks))"
      using add_chunks_Inr by blast
    from enc rows have r: "rows = map f (map text chunks)"
      unfolding pointwise_encoder_def by blast
    have old: "(case index s of None \<Rightarrow> [] | Some i0 \<Rightarrow> vectors i0) =
                 map (\<lambda>doc. normalize_L2 env (f (text doc))) (documents s)"
      using inv by (auto simp: coupled_iff split: option.splits)
    have new: "map (\<lambda>doc. normalize_L2 env (f (text doc)))
                 (new_documents env (uuids_drawn s) (zip (map text chunks) (map metadata chunks))) =
               map (normalize_L2 env) rows"
    proof -
      have "map text (new_documents env (uuids_drawn s) (zip (map text chunks) (map metadata chunks)))
              = map text chunks"
        by (simp add: map_text_new_documents map_fst_zip)
      then have "map (\<lambda>x. normalize_L2 env (f x))
          (map text (new_documents env (uuids_drawn s) (zip (map text chunks) (map metadata chunks))))
              = map (\<lambda>x. normalize_L2 env (f x)) (map text chunks)"
        by simp
      then show ?thesis by (simp add: r comp_def)
    qed
    from ix vs docs old new res show ?thesis by (simp add: coupled_iff)
  qed
qed

lemma coupled_delete:
  assumes enc: "pointwise_encoder env f" and inv: "coupled env f s"
  shows "coupled env f (snd (delete_document env s source_name))"
proof -
  let ?new = "filter (\<lambda>doc. source (metadata doc) \<noteq> Some source_name) (documents s)"
  obtain r s' where res: "delete_document env s source_name = (r, s')" by force
  from delete_document_cases[OF res] consider
      (same) "s' = s"
    | (reset) "s' = reset_collection s"
    | (failed) "index s' = index s" "documents s' = documents s"
    | (rebuilt) rows ix where
        "encode env (length (encode_calls s)) (map text ?new) = Inr rows"
        "index s' = Some ix" "vectors ix = map (normalize_L2 env) rows"
        "documents s' = ?new"
    by blast
  then show ?thesis
  proof cases
    case same
    with inv res show ?thesis by simp
  next
    case reset
    with res show ?thesis by (simp add: coupled_reset)
  next
    case failed
    with inv res show ?thesis by (auto simp: coupled_iff split: option.splits)
  next
    case rebuilt
    from enc rebuilt(1) have "rows = map f (map text (documents s'))"
      unfolding pointwise_encoder_def rebuilt(4) by blast
    with rebuilt(2,3) res show ?thesis by (simp add: coupled_iff comp_def)
  qed
qed

lemma coupled_step:
  "pointwise_encoder env f \<Longrightarrow> coupled env f s \<Longrightarrow> coupled env f (step env s op)"
  by (cases op) (simp_all add: coupled_add coupled_delete coupled_reset)

lemma coupled_run:
  "pointwise_encoder env f \<Longrightarrow> coupled env f s \<Longrightarrow> coupled env f (run env s ops)"
  unfolding run_def by (induction ops arbitrary: s) (simp_all add: coupled_step)

text \<open>
  C1. Positional coupling. Assume the embedding model is pointwise (\<open>f\<close> gives the
  vector of a text whenever the model answers). The store over an empty persistence
  directory is coupled, and from any coupled store every sequence of \<^verbatim>\<open>add_chunks\<close>,
  \<^verbatim>\<open>delete_document\<close> and \<^verbatim>\<open>reset_collection\<close> calls, whether a call returns or
  raises, leads to a coupled store: the index holds as many vectors as the metadata
  log holds records, and the vector at position \<open>i\<close> is the normalised embedding of
  the text of record \<open>i\<close>.
\<close>

theorem C1_positional_coupling:
  assumes "pointwise_encoder env f"
  shows "coupled env f init_store \<and> (coupled env f s \<longrightarrow> coupled env f (run env s ops))"
  using assms coupled_init coupled_run by blast

lemma add_chunks_Inr_facts:
  assumes "one_row_per_text env" "chunks \<noteq> []" "add_chunks env s chunks = (Inr n, s')"
  shows "n = length chunks \<and>
         total_chunks (get_collection_stats env s') =
           total_chunks (get_collection_stats env s) + length chunks \<and>
         take (length (documents s)) (documents s') = documents s \<and>
         map text (drop (length (documents s)) (documents s')) = map text chunks \<and>
         map metadata (drop (length (documents s)) (documents s')) = map metadata chunks"
proof -
  from assms(2,3) obtain rows ix where
      rows: "encode env (length (encode_calls s)) (map text chunks) = Inr rows" and
      ix: "index s' = Some ix" and
      vs: "vectors ix = (case index s of None \<Rightarrow> [] | Some i0 \<Rightarrow> vectors i0) @
                          map (normalize_L2 env) rows" and
      docs: "documents s' = documents s @
              new_documents env (uuids_drawn s) (zip (map text chunks) (map metadata chunks))" and
      n: "n = length chunks"
    using add_chunks_Inr by blast
  from assms(1) rows have len: "length rows = length chunks"
    by (auto simp: one_row_per_text_def)
  have "total_chunks (get_collection_stats env s') =
           total_chunks (get_collection_stats env s) + length chunks"
    using ix vs len by (simp add: get_collection_stats_def ntotal_def split: option.splits)
  moreover have "map text (drop (length (documents s)) (documents s')) = map text chunks"
    by (simp add: docs map_text_new_documents map_fst_zip)
  moreover have "map metadata (drop (length (documents s)) (documents s')) = map metadata chunks"
    by (simp add: docs map_metadata_new_documents map_snd_zip)
  ultimately show ?thesis using n docs by simp
qed

text \<open>
  C2. For a non-empty batch and an embedding model that gives one vector per text:
  when the model answers with vectors of one length \<open>d\<close>, and either there is no
  index and constructing one of dimension \<open>d\<close> does not raise, or the index has the
  dimension \<open>d\<close> (every index built by the operations has the dimension of the
  model, see \<open>index_dimension_run\<close> below), \<^verbatim>\<open>add_chunks\<close> returns the length of the
  batch, \<^verbatim>\<open>total_chunks\<close> of the statistics grows by exactly that length, the old
  records stay in front, and behind them the log holds one new record per chunk,
  with the chunk's text and metadata, in the order of the batch. The same holds of
  every call of \<^verbatim>\<open>add_chunks\<close> on a non-empty batch that returns.
\<close>

theorem C2_add_count:
  assumes "one_row_per_text env" "chunks \<noteq> []"
  shows "(encode env (length (encode_calls s)) (map text chunks) = Inr rows \<and>
          list_all (\<lambda>r. length r = d) rows \<and>
          (case index s of
             None \<Rightarrow> index_error env (Suc (length (encode_calls s))) d = None
           | Some ix \<Rightarrow> dimension ix = d)
            \<longrightarrow> fst (add_chunks env s chunks) = Inr (length chunks) \<and>
                total_chunks (get_collection_stats env (snd (add_chunks env s chunks))) =
                  total_chunks (get_collection_stats env s) + length chunks \<and>
                take (length (documents s)) (documents (snd (add_chunks env s chunks))) =
                  documents s \<and>
                map text (drop (length (documents s))
                            (documents (snd (add_chunks env s chunks)))) = map text chunks \<and>
                map metadata (drop (length (documents s))
                                (documents (snd (add_chunks env s chunks)))) =
                  map metadata chunks) \<and>
         (add_chunks env s chunks = (Inr n, s')
            \<longrightarrow> n = length chunks \<and>
                total_chunks (get_collection_stats env s') =
                  total_chunks (get_collection_stats env s) + length chunks \<and>
                take (length (documents s)) (documents s') = documents s \<and>
                map text (drop (length (documents s)) (documents s')) = map text chunks \<and>
                map metadata (drop (length (documents s)) (documents s')) =
                  map metadata chunks)"
proof (rule conjI; rule impI)
  assume a: "encode env (length (encode_calls s)) (map text chunks) = Inr rows \<and>
          list_all (\<lambda>r. length r = d) rows \<and>
          (case index s of
             None \<Rightarrow> index_error env (Suc (length (encode_calls s))) d = None
           | Some ix \<Rightarrow> dimension ix = d)"
  with assms(1) have len: "length rows = length chunks"
    by (auto simp: one_row_per_text_def)
  from a have f: "fst (add_chunks env s chunks) = Inr (length chunks)"
    using add_chunks_returns[OF assms(2) _ len, of env s d] by blast
  then have r: "add_chunks env s chunks = (Inr (length chunks), snd (add_chunks env s chunks))"
    by (metis prod.collapse)
  from add_chunks_Inr_facts[OF assms r] f
  show "fst (add_chunks env s chunks) = Inr (length chunks) \<and>
                total_chunks (get_collection_stats env (snd (add_chunks env s chunks))) =
                  total_chunks (get_collection_stats env s) + length chunks \<and>
                take (length (documents s)) (documents (snd (add_chunks env s chunks))) =
                  documents s \<and>
                map text (drop (length (documents s))
                            (documents (snd (add_chunks env s chunks)))) = map text chunks \<and>
                map metadata (drop (length (documents s))
                                (documents (snd (add_chunks env s chunks)))) =
                  map metadata chunks"
    by blast
next
  assume "add_chunks env s chunks = (Inr n, s')"
  from add_chunks_Inr_facts[OF assms this]
  show "n = length chunks \<and>
                total_chunks (get_collection_stats env s') =
                  total_chunks (get_collection_stats env s) + length chunks \<and>
                take (length (documents s)) (documents s') = documents s \<and>
                map text (drop (length (documents s)) (documents s')) = map text chunks \<and>
                map metadata (drop (length (documents s)) (documents s')) =
                  map metadata chunks" .
qed

text \<open>
  C3. Atomicity of \<^verbatim>\<open>add_chunks\<close>. If the embedding model raises, or if there is no
  index yet and constructing one raises, \<^verbatim>\<open>add_chunks\<close> raises that exception.
  Whenever \<^verbatim>\<open>add_chunks\<close> raises, the index and the metadata log in memory and both
  files are what they were before the call. When it returns on a non-empty batch,
  all chunks are in the log and the files hold the index and the log of the memory.
\<close>

theorem C3_add_atomic:
  "(chunks \<noteq> [] \<and> encode env (length (encode_calls s)) (map text chunks) = Inl e
      \<longrightarrow> fst (add_chunks env s chunks) = Inl e) \<and>
   (chunks \<noteq> [] \<and> index s = None \<and>
    encode env (length (encode_calls s)) (map text chunks) = Inr (r # rs) \<and>
    np_array (r # rs) = Inr (r # rs) \<and>
    index_error env (Suc (length (encode_calls s))) (length r) = Some e
      \<longrightarrow> fst (add_chunks env s chunks) = Inl e) \<and>
   (add_chunks env s chunks = (Inl e, s')
      \<longrightarrow> index s' = index s \<and> documents s' = documents s \<and>
          index_file s' = index_file s \<and> meta_file s' = meta_file s) \<and>
   (chunks \<noteq> [] \<and> add_chunks env s chunks = (Inr n, s')
      \<longrightarrow> index_file s' = index s' \<and> meta_file s' = Some (documents s') \<and>
          length (documents s') = length (documents s) + length chunks)"
proof (intro conjI impI)
  assume "chunks \<noteq> [] \<and> encode env (length (encode_calls s)) (map text chunks) = Inl e"
  then show "fst (add_chunks env s chunks) = Inl e"
    using add_chunks_encode_fails by blast
next
  assume "chunks \<noteq> [] \<and> index s = None \<and>
    encode env (length (encode_calls s)) (map text chunks) = Inr (r # rs) \<and>
    np_array (r # rs) = Inr (r # rs) \<and>
    index_error env (Suc (length (encode_calls s))) (length r) = Some e"
  then show "fst (add_chunks env s chunks) = Inl e"
    using add_chunks_index_creation_fails by blast
next
  assume a: "add_chunks env s chunks = (Inl e, s')"
  from add_chunks_Inl[OF a] show "index s' = index s" "documents s' = documents s"
          "index_file s' = index_file s" "meta_file s' = meta_file s" by simp_all
next
  assume a: "chunks \<noteq> [] \<and> add_chunks env s chunks = (Inr n, s')"
  then obtain ix where "index s' = Some ix" "index_file s' = Some ix"
     "meta_file s' = Some (documents s')"
     "documents s' = documents s @
              new_documents env (uuids_drawn s) (zip (map text chunks) (map metadata chunks))"
    using add_chunks_Inr by blast
  then show "index_file s' = index s'" "meta_file s' = Some (documents s')"
    "length (documents s') = length (documents s) + length chunks"
    by (simp_all add: length_new_documents)
qed

text \<open>
  C10. \<^verbatim>\<open>add_chunks\<close> on the empty batch returns 0 and the whole state is what it was:
  index, metadata log, both files, the log of the calls to the embedding model and
  the count of identifiers drawn.
\<close>

theorem C10_add_empty: "add_chunks env s [] = (Inr 0, s)"
  by (simp add: add_chunks_def)

text \<open>
  C8. When no record of the metadata log has the source \<open>source_name\<close>,
  \<^verbatim>\<open>delete_document\<close> returns \<open>False\<close> and the state returned is the state given:
  index, metadata log and both files are unchanged, hence so are the statistics.
\<close>

theorem C8_delete_absent:
  assumes "\<forall>doc \<in> set (documents s). source (metadata doc) \<noteq> Some source_name"
  shows "delete_document env s source_name = (Inr False, s)"
proof -
  from assms have "filter (\<lambda>doc. source (metadata doc) \<noteq> Some source_name) (documents s) = documents s"
    by (simp add: filter_id_conv)
  then show ?thesis by (simp add: delete_document_not_found)
qed

subsection \<open>Queries\<close>

lemma format_results_eq:
  "format_results docs hits = map (result_of docs) (filter (in_range docs) hits)"
  by (induction docs hits rule: format_results.induct) (auto simp: in_range_def result_of_def)

lemma distance_result_of: "distance (result_of docs hit) = fst hit"
  by (simp add: result_of_def)

lemma query_empty:
  assumes "index s = None \<or> (\<exists>ix. index s = Some ix \<and> ntotal ix = 0)"
  shows "query env s question top_k = (Inr [], s)"
  using assms by (auto simp: query_def Let_def)

lemma query_Inr:
  assumes "index s = Some ix" "ntotal ix \<noteq> 0" "query env s question top_k = (Inr rs, s')"
  shows "\<exists>qe k'. 0 < k' \<and>
           k' = min (case top_k of None \<Rightarrow> top_k_results (settings env)
                     | Some k \<Rightarrow> if k = 0 then top_k_results (settings env) else k)
                    (int (ntotal ix)) \<and>
           rs = format_results (documents s)
                  (search env (vectors ix) (normalize_L2 env qe) (nat k'))"
  using assms
  by (auto simp: query_def Let_def embed_query_def index_search_def
      split: sum.splits list.splits if_splits option.splits)

lemma query_returns:
  assumes ix: "index s = Some ix" "ntotal ix \<noteq> 0"
    and enc: "encode env (length (encode_calls s)) [question] = Inr (v # vs)"
    and dim: "length v = dimension ix"
    and k: "0 < (case top_k of None \<Rightarrow> top_k_results (settings env)
                 | Some k \<Rightarrow> if k = 0 then top_k_results (settings env) else k)"
  shows "fst (query env s question top_k) =
           Inr (map (result_of (documents s))
                  (filter (in_range (documents s))
                     (search env (vectors ix) (normalize_L2 env v)
                        (nat (min (case top_k of None \<Rightarrow> top_k_results (settings env)
                                   | Some k \<Rightarrow> if k = 0 then top_k_results (settings env) else k)
                                  (int (ntotal ix)))))))"
  using assms
  by (simp add: query_def Let_def embed_query_def index_search_def length_normalize_L2
        format_results_eq)

lemma sorted_desc_filter:
  "sorted_wrt (\<lambda>a b. b \<le> a) (map fst hits) \<Longrightarrow>
   sorted_wrt (\<lambda>a b. b \<le> a) (map fst (filter P hits))"
  by (simp add: sorted_wrt_map sorted_wrt_filter)

text \<open>
  C4. Query. On a store without an index or with an empty one, \<^verbatim>\<open>query\<close> returns the
  empty list and raises nothing. Given the search contract of the index, a query
  for a positive \<open>k\<close> that returns yields at most \<open>min k total_chunks\<close> results, by
  descending score. Whenever a query on a non-empty index returns, its results are
  made from exactly those hits of the search whose position has a record in the log,
  in the order of the hits. And a hit without a record never makes the query raise:
  when the embedding model answers with a vector of the index's dimension and the
  number of results asked for is positive, \<^verbatim>\<open>query\<close> returns, and what it returns is
  the list of the results of the hits that have a record, whatever positions the
  search reports.
\<close>

theorem C4_query:
  assumes "search_contract env"
  shows "(index s = None \<or> (\<exists>ix. index s = Some ix \<and> ntotal ix = 0)
            \<longrightarrow> query env s question top_k = (Inr [], s)) \<and>
         (0 < k \<and> query env s question (Some k) = (Inr rs, s')
            \<longrightarrow> length rs \<le> min (nat k) (total_chunks (get_collection_stats env s)) \<and>
                sorted_wrt (\<lambda>a b. b \<le> a) (map distance rs)) \<and>
         (index s = Some ix \<and> ntotal ix \<noteq> 0 \<and> query env s question top_k = (Inr rs', s'')
            \<longrightarrow> (\<exists>qv n. rs' = map (result_of (documents s))
                              (filter (in_range (documents s)) (search env (vectors ix) qv n)))) \<and>
         (index s = Some ix \<and> ntotal ix \<noteq> 0 \<and>
          encode env (length (encode_calls s)) [question] = Inr (v # vs) \<and>
          length v = dimension ix \<and>
          0 < (case top_k of None \<Rightarrow> top_k_results (settings env)
               | Some k \<Rightarrow> if k = 0 then top_k_results (settings env) else k)
            \<longrightarrow> fst (query env s question top_k) =
                  Inr (map (result_of (documents s))
                         (filter (in_range (documents s))
                            (search env (vectors ix) (normalize_L2 env v)
                               (nat (min (case top_k of None \<Rightarrow> top_k_results (settings env)
                                          | Some k \<Rightarrow>
                                              if k = 0 then top_k_results (settings env) else k)
                                         (int (ntotal ix))))))))"
proof (intro conjI impI)
  assume "index s = None \<or> (\<exists>ix. index s = Some ix \<and> ntotal ix = 0)"
  then show "query env s question top_k = (Inr [], s)" by (rule query_empty)
next
  assume a: "0 < k \<and> query env s question (Some k) = (Inr rs, s')"
  have "length rs \<le> min (nat k) (total_chunks (get_collection_stats env s)) \<and>
                sorted_wrt (\<lambda>a b. b \<le> a) (map distance rs)"
  proof (cases "index s = None \<or> (\<exists>ix. index s = Some ix \<and> ntotal ix = 0)")
    case True
    from query_empty[OF True] a have "rs = []" by simp
    then show ?thesis by simp
  next
    case False
    then obtain ix0 where ix0: "index s = Some ix0" "ntotal ix0 \<noteq> 0" by auto
    from query_Inr[OF ix0] a obtain qe k' where
      k': "0 < k'" "k' = min k (int (ntotal ix0))" and
      rs: "rs = format_results (documents s)
                  (search env (vectors ix0) (normalize_L2 env qe) (nat k'))"
      by fastforce
    let ?hits = "search env (vectors ix0) (normalize_L2 env qe) (nat k')"
    from assms k'(1) have len: "length ?hits = nat k'"
      and srt: "sorted_wrt (\<lambda>a b. b \<le> a) (map fst ?hits)"
      by (simp_all add: search_contract_def)
    have le: "length rs \<le> length ?hits"
      by (simp add: rs format_results_eq)
    have "nat k' = min (nat k) (ntotal ix0)"
      unfolding k'(2) min_def by auto
    with le len have l: "length rs \<le> min (nat k) (ntotal ix0)"
      by simp
    have t: "total_chunks (get_collection_stats env s) = ntotal ix0"
      by (simp add: get_collection_stats_def ix0)
    have "map distance rs = map fst (filter (in_range (documents s)) ?hits)"
      by (simp add: rs format_results_eq distance_result_of comp_def)
    with sorted_desc_filter[OF srt] have "sorted_wrt (\<lambda>a b. b \<le> a) (map distance rs)"
      by simp
    with l t show ?thesis by simp
  qed
  then show "length rs \<le> min (nat k) (total_chunks (get_collection_stats env s))"
    and "sorted_wrt (\<lambda>a b. b \<le> a) (map distance rs)" by simp_all
next
  assume a: "index s = Some ix \<and> ntotal ix \<noteq> 0 \<and> query env s question top_k = (Inr rs', s'')"
  then have "index s = Some ix" "ntotal ix \<noteq> 0" "query env s question top_k = (Inr rs', s'')"
    by simp_all
  from query_Inr[OF this] show "\<exists>qv n. rs' = map (result_of (documents s))
                              (filter (in_range (documents s)) (search env (vectors ix) qv n))"
    by (auto simp: format_results_eq)
next
  assume "index s = Some ix \<and> ntotal ix \<noteq> 0 \<and>
          encode env (length (encode_calls s)) [question] = Inr (v # vs) \<and>
          length v = dimension ix \<and>
          0 < (case top_k of None \<Rightarrow> top_k_results (settings env)
               | Some k \<Rightarrow> if k = 0 then top_k_results (settings env) else k)"
  then show "fst (query env s question top_k) =
                  Inr (map (result_of (documents s))
                         (filter (in_range (documents s))
                            (search env (vectors ix) (normalize_L2 env v)
                               (nat (min (case top_k of None \<Rightarrow> top_k_results (settings env)
                                          | Some k \<Rightarrow>
                                              if k = 0 then top_k_results (settings env) else k)
                                         (int (ntotal ix)))))))"
    using query_returns[of s ix env question v vs top_k] by blast
qed

subsection \<open>The fallback over the providers\<close>

lemma dropWhile_Cons_not_all:
  "dropWhile P xs = y # ys \<Longrightarrow> \<forall>x \<in> set xs. P x \<Longrightarrow> False"
  by (metis dropWhile_eq_Nil_conv list.distinct(1))

lemma try_providers_spec:
  "try_providers ps up chunks last_error calls =
     (case dropWhile (provider_fails up) ps of
        [] \<Rightarrow> (Inl (RuntimeError (all_failed_message
                   (if ps = [] then last_error
                    else Some (projl (generate (last ps) SYSTEM_PROMPT up))))),
               calls @ map name ps)
      | p # _ \<Rightarrow> (Inr \<lparr>answer = projr (generate p SYSTEM_PROMPT up),
                        references = map text chunks\<rparr>,
                   calls @ map name (takeWhile (provider_fails up) ps) @ [name p]))"
proof (induction ps arbitrary: last_error calls)
  case Nil
  show ?case by simp
next
  case (Cons p ps)
  show ?case
  proof (cases "generate p SYSTEM_PROMPT up")
    case (Inl e)
    then have f: "provider_fails up p" by (simp add: provider_fails_def)
    have step: "try_providers (p # ps) up chunks last_error calls =
                  try_providers ps up chunks (Some e) (calls @ [name p])"
      using Inl by simp
    show ?thesis
      unfolding step Cons.IH using f Inl
      by (auto split: list.splits dest: dropWhile_Cons_not_all)
  next
    case (Inr a)
    then have "\<not> provider_fails up p" by (simp add: provider_fails_def)
    with Inr show ?thesis by simp
  qed
qed

text \<open>
  C5. Fallback. With retrieved chunks and a non-empty registry, let \<open>candidates\<close> be
  the selected providers; the list is not empty. \<^verbatim>\<open>generate_answer\<close> invokes the
  candidates in their order, each at most once, up to and including the first one that
  answers: the trace is the names of the failing prefix followed by the name of
  that provider, the answer is that provider's, and the references are the texts of
  the chunks in the order given; the exceptions of the earlier providers do not
  appear in the result. If every candidate raises, all were invoked once, in order,
  and the result is a \<open>RuntimeError\<close> whose message ends with the message of the last
  candidate's exception.
\<close>

theorem C5_fallback:
  assumes "context_chunks \<noteq> []" "providers \<noteq> []"
    and "select_providers providers provider = Inr candidates"
    and "user_prompt = USER_PROMPT_TEMPLATE (build_context context_chunks) question"
  shows "candidates \<noteq> [] \<and>
     generate_answer providers question context_chunks provider =
     (case dropWhile (provider_fails user_prompt) candidates of
        [] \<Rightarrow> (Inl (RuntimeError (all_failed_message
                   (Some (projl (generate (last candidates) SYSTEM_PROMPT user_prompt))))),
               map name candidates)
      | p # _ \<Rightarrow> (Inr \<lparr>answer = projr (generate p SYSTEM_PROMPT user_prompt),
                        references = map text context_chunks\<rparr>,
                   map name (takeWhile (provider_fails user_prompt) candidates) @ [name p]))"
proof -
  from assms(2,3) have ne: "candidates \<noteq> []"
    by (auto simp: select_providers_def Let_def split: option.splits if_splits)
  have "generate_answer providers question context_chunks provider =
          try_providers candidates user_prompt context_chunks None []"
    using assms by (simp add: generate_answer_def)
  with ne show ?thesis
    by (auto simp: try_providers_spec split: list.splits dest: dropWhile_Cons_not_all)
qed

text \<open>
  C7. With retrieved chunks: an empty registry gives the configuration error, and a
  requested provider name (a non-empty string) that no provider of a non-empty
  registry bears gives the error naming that provider as not available; in both
  cases the trace of provider invocations is empty.
\<close>

theorem C7_configuration_errors:
  assumes "context_chunks \<noteq> []"
  shows "(providers = [] \<longrightarrow>
            generate_answer providers question context_chunks provider =
              (Inl (RuntimeError NO_PROVIDERS_MESSAGE), [])) \<and>
         (providers \<noteq> [] \<and> p \<noteq> [] \<and> p \<notin> set (map name providers) \<longrightarrow>
            generate_answer providers question context_chunks (Some p) =
              (Inl (RuntimeError (not_available_message p)), []))"
proof (intro conjI impI)
  assume "providers = []"
  with assms show "generate_answer providers question context_chunks provider =
              (Inl (RuntimeError NO_PROVIDERS_MESSAGE), [])"
    by (simp add: generate_answer_def)
next
  assume a: "providers \<noteq> [] \<and> p \<noteq> [] \<and> p \<notin> set (map name providers)"
  then have "filter (\<lambda>q. name q = p) providers = []"
    by (auto simp: filter_empty_conv)
  with a have "select_providers providers (Some p) = Inl (RuntimeError (not_available_message p))"
    by (simp add: select_providers_def)
  with a assms show "generate_answer providers question context_chunks (Some p) =
              (Inl (RuntimeError (not_available_message p)), [])"
    by (simp add: generate_answer_def)
qed

subsection \<open>Deleting a source\<close>

lemma list_documents_sources:
  "n \<in> set (list_documents s) \<Longrightarrow> \<exists>doc \<in> set (documents s). source (metadata doc) = Some n"
  by (auto simp: list_documents_def Let_def split: if_splits option.splits)

text \<open>
  C9. On a store in which a missing index means an empty log (every store reached by
  operations from the empty one is such, see \<open>index_present_run\<close> below): when
  \<^verbatim>\<open>delete_document\<close> returns, the source deleted is not among \<^verbatim>\<open>list_documents\<close>
  of the resulting store; and when the log is not empty and every record has that
  source, the call returns \<open>True\<close> and the resulting state is the one
  \<^verbatim>\<open>reset_collection\<close> produces.
\<close>

theorem C9_delete_removes_source:
  assumes "index s = None \<longrightarrow> documents s = []"
  shows "(delete_document env s source_name = (Inr b, s')
            \<longrightarrow> source_name \<notin> set (list_documents s')) \<and>
         (documents s \<noteq> [] \<and>
          (\<forall>doc \<in> set (documents s). source (metadata doc) = Some source_name)
            \<longrightarrow> delete_document env s source_name = (Inr True, reset_collection s))"
proof (intro conjI impI)
  assume r: "delete_document env s source_name = (Inr b, s')"
  let ?new = "filter (\<lambda>doc. source (metadata doc) \<noteq> Some source_name) (documents s)"
  from delete_document_cases[OF r] consider
      (same) "s' = s" "index s = None \<or> documents s = [] \<or>
             (\<forall>doc \<in> set (documents s). source (metadata doc) \<noteq> Some source_name)"
    | (reset) "s' = reset_collection s"
    | (rebuilt) "documents s' = ?new"
    by blast
  then have "\<forall>doc \<in> set (documents s'). source (metadata doc) \<noteq> Some source_name"
  proof cases
    case same
    with assms show ?thesis by auto
  next
    case reset
    then show ?thesis by (simp add: reset_collection_def)
  next
    case rebuilt
    then show ?thesis by simp
  qed
  then show "source_name \<notin> set (list_documents s')"
    using list_documents_sources by blast
next
  assume a: "documents s \<noteq> [] \<and>
          (\<forall>doc \<in> set (documents s). source (metadata doc) = Some source_name)"
  with assms have "index s \<noteq> None" by blast
  moreover from a have "filter (\<lambda>doc. source (metadata doc) \<noteq> Some source_name) (documents s) = []"
    by (simp add: filter_empty_conv)
  ultimately show "delete_document env s source_name = (Inr True, reset_collection s)"
    using a by (simp add: delete_document_all)
qed

text \<open>
  C6. Whatever the question, the registry and the requested provider, an empty list
  of retrieved chunks yields the fixed "no relevant documents" answer with no
  references, and the trace of provider invocations is empty.
\<close>

theorem C6_empty_context_short_circuit:
  "generate_answer providers question [] provider =
     (Inr \<lparr>answer = NO_DOCUMENTS_ANSWER, references = []\<rparr>, [])"
  by (simp add: generate_answer_def)

subsection \<open>A store reached by operations has an index whenever it has records\<close>

lemma index_present_add:
  assumes "index s = None \<longrightarrow> documents s = []"
  shows "index (snd (add_chunks env s chunks)) = None \<longrightarrow>
         documents (snd (add_chunks env s chunks)) = []"
proof (cases "chunks = []")
  case True
  with assms show ?thesis by (simp add: add_chunks_def)
next
  case False
  obtain r s' where res: "add_chunks env s chunks = (r, s')" by force
  show ?thesis
  proof (cases r)
    case (Inl e)
    with res add_chunks_Inl[of env s chunks e s'] assms show ?thesis by simp
  next
    case (Inr n)
    with res False add_chunks_Inr[of env s chunks n s'] show ?thesis by auto
  qed
qed

lemma index_present_delete:
  assumes "index s = None \<longrightarrow> documents s = []"
  shows "index (snd (delete_document env s source_name)) = None \<longrightarrow>
         documents (snd (delete_document env s source_name)) = []"
proof -
  obtain r s' where res: "delete_document env s source_name = (r, s')" by force
  from delete_document_cases[OF res] consider
      (same) "s' = s"
    | (reset) "s' = reset_collection s"
    | (failed) "index s' = index s" "documents s' = documents s"
    | (rebuilt) ix where "index s' = Some ix"
    by blast
  then show ?thesis
  proof cases
    case same
    with assms res show ?thesis by simp
  next
    case reset
    with res show ?thesis by (simp add: reset_collection_def)
  next
    case failed
    with assms res show ?thesis by simp
  next
    case rebuilt
    with res show ?thesis by simp
  qed
qed

lemma index_present_run:
  "index s = None \<longrightarrow> documents s = [] \<Longrightarrow>
   index (run env s ops) = None \<longrightarrow> documents (run env s ops) = []"
  unfolding run_def
proof (induction ops arbitrary: s)
  case Nil
  then show ?case by simp
next
  case (Cons op ops)
  have "index (step env s op) = None \<longrightarrow> documents (step env s op) = []"
    using Cons.prems
    by (cases op) (simp_all add: index_present_add index_present_delete reset_collection_def)
  from Cons.IH[OF this] show ?case by simp
qed

subsection \<open>An index built by the operations has the dimension of the model\<close>

lemma index_dimension_init: "index_dimension d init_store"
  by (simp add: index_dimension_def init_store_def load_def)

lemma shape1_fixed:
  assumes "fixed_dimension env d" "encode env t texts = Inr rows" "texts \<noteq> []"
    and "shape1 (map (normalize_L2 env) rows) = Inr n"
  shows "n = d"
proof -
  from assms(1,2) have "length rows = length texts" "list_all (\<lambda>r. length r = d) rows"
    by (auto simp: fixed_dimension_def)
  with assms(3) obtain r rs where "rows = r # rs" "length r = d"
    by (cases rows) auto
  with assms(4) show ?thesis by (simp add: shape1_def length_normalize_L2)
qed

lemma index_dimension_add:
  assumes fd: "fixed_dimension env d" and inv: "index_dimension d s"
  shows "index_dimension d (snd (add_chunks env s chunks))"
proof (cases "chunks = []")
  case True
  with inv show ?thesis by (simp add: add_chunks_def)
next
  case False
  obtain r s' where res: "add_chunks env s chunks = (r, s')" by force
  show ?thesis
  proof (cases r)
    case (Inl e)
    with res add_chunks_Inl[of env s chunks e s'] inv show ?thesis
      by (simp add: index_dimension_def)
  next
    case (Inr n)
    with res False add_chunks_dimension[of env s chunks n s'] obtain rows ix where
      rows: "encode env (length (encode_calls s)) (map text chunks) = Inr rows" and
      ix: "index s' = Some ix" and
      dm: "case index s of
              None \<Rightarrow> shape1 (map (normalize_L2 env) rows) = Inr (dimension ix)
            | Some i0 \<Rightarrow> dimension ix = dimension i0"
      by blast
    have "dimension ix = d"
    proof (cases "index s")
      case None
      with dm have "shape1 (map (normalize_L2 env) rows) = Inr (dimension ix)" by simp
      from shape1_fixed[OF fd rows _ this] False show ?thesis by simp
    next
      case (Some i0)
      with dm inv show ?thesis by (simp add: index_dimension_def)
    qed
    with ix res show ?thesis by (simp add: index_dimension_def)
  qed
qed

lemma index_dimension_delete:
  assumes fd: "fixed_dimension env d" and inv: "index_dimension d s"
  shows "index_dimension d (snd (delete_document env s source_name))"
proof -
  let ?new = "filter (\<lambda>doc. source (metadata doc) \<noteq> Some source_name) (documents s)"
  obtain r s' where res: "delete_document env s source_name = (r, s')" by force
  from delete_document_cases[OF res] consider
      (same) "s' = s"
    | (reset) "s' = reset_collection s"
    | (failed) "index s' = index s"
    | (rebuilt) rows ix where
        "encode env (length (encode_calls s)) (map text ?new) = Inr rows"
        "index s' = Some ix"
        "shape1 (map (normalize_L2 env) rows) = Inr (dimension ix)"
        "documents s' = ?new" "documents s' \<noteq> []"
    by blast
  then show ?thesis
  proof cases
    case same
    with inv res show ?thesis by simp
  next
    case reset
    with res show ?thesis by (simp add: index_dimension_def reset_collection_def)
  next
    case failed
    with inv res show ?thesis by (simp add: index_dimension_def)
  next
    case rebuilt
    from rebuilt(4,5) have "map text ?new \<noteq> []" by simp
    from shape1_fixed[OF fd rebuilt(1) this rebuilt(3)] rebuilt(2) res
    show ?thesis by (simp add: index_dimension_def)
  qed
qed

lemma index_dimension_reset: "index_dimension d (reset_collection s)"
  by (simp add: index_dimension_def reset_collection_def)

lemma index_dimension_run:
  "fixed_dimension env d \<Longrightarrow> index_dimension d s \<Longrightarrow> index_dimension d (run env s ops)"
  unfolding run_def
proof (induction ops arbitrary: s)
  case Nil
  then show ?case by simp
next
  case (Cons op ops)
  have "index_dimension d (step env s op)"
    using Cons.prems
    by (cases op)
       (simp_all add: index_dimension_add index_dimension_delete index_dimension_reset)
  from Cons.IH[OF Cons.prems(1) this] show ?case by simp
qed

section \<open>The properties at concrete inputs\<close>

lemmas example_defs =
  example_env_def example_settings_def example_embedding_def example_chunk1_def
  example_chunk2_def example_doc1_def example_doc2_def example_store_def
  failing_encoder_env_def failing_index_env_def stale_store_def single_store_def
  example_retrieved_def

lemmas store_defs =
  add_chunks_def delete_document_def query_def embed_texts_def embed_query_def np_array_def
  shape1_def normalize_L2_def new_IndexFlatIP_def index_add_def index_search_def
  ensure_index_def save_def reset_collection_def init_store_def load_def ntotal_def
  get_collection_stats_def list_documents_def Let_def

lemma example_add:
  "add_chunks example_env init_store [example_chunk1, example_chunk2] = (Inr 2, example_store)"
  by (simp add: example_defs store_defs)

lemma example_delete:
  "delete_document example_env example_store ''b.pdf'' = (Inr True, single_store)"
  by (simp add: example_defs store_defs)

lemma example_query:
  "fst (query example_env example_store ''What is the motor current?'' (Some 5)) =
     Inr [\<lparr>text = ''The motor draws 5A.'',
           metadata = \<lparr>source = Some ''spec.pdf'', page = Some 1, chunk_index = Some 0\<rparr>,
           distance = 0\<rparr>,
          \<lparr>text = ''Torque: 12 Nm.'',
           metadata = \<lparr>source = Some ''b.pdf'', page = Some 2, chunk_index = Some 0\<rparr>,
           distance = - 1\<rparr>]"
  by (simp add: example_defs store_defs upt_rec)

lemma stale_query:
  "fst (query example_env stale_store ''What is the motor current?'' (Some 5)) =
     Inr [example_retrieved]"
  by (simp add: example_defs store_defs upt_rec)

lemma search_contract_example: "search_contract example_env"
  by (auto simp: search_contract_def example_env_def sorted_wrt_iff_nth_less)

lemma pointwise_example: "pointwise_encoder example_env example_embedding"
  by (auto simp: pointwise_encoder_def example_env_def)

theorem C1_positional_coupling_witness:
  "pointwise_encoder example_env example_embedding \<and>
   coupled example_env example_embedding init_store \<and>
   coupled example_env example_embedding
     (run example_env init_store
        [Add [example_chunk1, example_chunk2], Delete ''b.pdf'', Add [], Reset,
         Add [example_chunk2]]) \<and>
   run example_env init_store [Add [example_chunk1, example_chunk2], Delete ''b.pdf''] =
     single_store"
proof -
  have "run example_env init_store [Add [example_chunk1, example_chunk2], Delete ''b.pdf''] =
          single_store"
    by (simp add: run_def example_add example_delete)
  moreover have "coupled example_env example_embedding init_store \<and>
     (coupled example_env example_embedding init_store \<longrightarrow>
      coupled example_env example_embedding
       (run example_env init_store
          [Add [example_chunk1, example_chunk2], Delete ''b.pdf'', Add [], Reset,
           Add [example_chunk2]]))"
    using pointwise_example by (rule C1_positional_coupling)
  ultimately show ?thesis using pointwise_example by blast
qed

theorem C2_add_count_witness:
  "one_row_per_text example_env \<and>
   add_chunks example_env init_store [example_chunk1, example_chunk2] = (Inr 2, example_store) \<and>
   total_chunks (get_collection_stats example_env init_store) = 0 \<and>
   total_chunks (get_collection_stats example_env example_store) = 2 \<and>
   map text (documents example_store) = [''The motor draws 5A.'', ''Torque: 12 Nm.''] \<and>
   fst (add_chunks example_env example_store [example_chunk1]) = Inr 1 \<and>
   total_chunks (get_collection_stats example_env
                   (snd (add_chunks example_env example_store [example_chunk1]))) = 3 \<and>
   take 2 (documents (snd (add_chunks example_env example_store [example_chunk1]))) =
     [example_doc1, example_doc2] \<and>
   map text (drop 2 (documents (snd (add_chunks example_env example_store [example_chunk1])))) =
     [''The motor draws 5A.'']"
proof -
  have h: "one_row_per_text example_env"
    by (simp add: one_row_per_text_def example_env_def)
  have ne: "[example_chunk1, example_chunk2] \<noteq> []" by simp
  have ne1: "[example_chunk1] \<noteq> []" by simp
  note t0 = C2_add_count[OF h ne, where s = init_store and n = 2 and s' = example_store]
  with example_add have
    "total_chunks (get_collection_stats example_env example_store) =
       total_chunks (get_collection_stats example_env init_store) +
       length [example_chunk1, example_chunk2] \<and>
     map text (drop (length (documents init_store)) (documents example_store)) =
       map text [example_chunk1, example_chunk2]"
    by blast
  then have a: "total_chunks (get_collection_stats example_env init_store) = 0 \<and>
      total_chunks (get_collection_stats example_env example_store) = 2 \<and>
      map text (documents example_store) = [''The motor draws 5A.'', ''Torque: 12 Nm.'']"
    by (simp add: init_store_def load_def get_collection_stats_def example_chunk1_def
          example_chunk2_def)
  note t1 = C2_add_count[OF h ne1, where s = example_store and rows = "[[0, 1]]" and d = 2]
  have "encode example_env (length (encode_calls example_store)) (map text [example_chunk1]) =
          Inr [[0, 1]] \<and>
        list_all (\<lambda>r. length r = 2) [[0, 1 :: real]] \<and>
        (case index example_store of
           None \<Rightarrow> index_error example_env (Suc (length (encode_calls example_store))) 2 = None
         | Some ix \<Rightarrow> dimension ix = 2)"
    by (simp add: example_defs)
  with t1 have
    "fst (add_chunks example_env example_store [example_chunk1]) = Inr (length [example_chunk1]) \<and>
     total_chunks (get_collection_stats example_env
                     (snd (add_chunks example_env example_store [example_chunk1]))) =
       total_chunks (get_collection_stats example_env example_store) + length [example_chunk1] \<and>
     take (length (documents example_store))
       (documents (snd (add_chunks example_env example_store [example_chunk1]))) =
       documents example_store \<and>
     map text (drop (length (documents example_store))
                 (documents (snd (add_chunks example_env example_store [example_chunk1])))) =
       map text [example_chunk1]"
    by blast
  moreover have "length (documents example_store) = 2"
    and "documents example_store = [example_doc1, example_doc2]"
    and "map text [example_chunk1] = [''The motor draws 5A.'']"
    by (simp_all add: example_store_def example_chunk1_def)
  moreover from a have "total_chunks (get_collection_stats example_env example_store) = 2"
    by simp
  ultimately have b: "fst (add_chunks example_env example_store [example_chunk1]) = Inr 1 \<and>
     total_chunks (get_collection_stats example_env
                     (snd (add_chunks example_env example_store [example_chunk1]))) = 3 \<and>
     take 2 (documents (snd (add_chunks example_env example_store [example_chunk1]))) =
       [example_doc1, example_doc2] \<and>
     map text (drop 2 (documents (snd (add_chunks example_env example_store [example_chunk1])))) =
       [''The motor draws 5A.'']"
    by (simp add: numeral_2_eq_2)
  from h example_add a b show ?thesis by blast
qed

theorem C3_add_atomic_witness:
  "fst (add_chunks failing_encoder_env example_store [example_chunk1]) =
     Inl (OtherError ''model not loaded'') \<and>
   index (snd (add_chunks failing_encoder_env example_store [example_chunk1])) =
     index example_store \<and>
   documents (snd (add_chunks failing_encoder_env example_store [example_chunk1])) =
     documents example_store \<and>
   index_file (snd (add_chunks failing_encoder_env example_store [example_chunk1])) =
     index_file example_store \<and>
   meta_file (snd (add_chunks failing_encoder_env example_store [example_chunk1])) =
     meta_file example_store \<and>
   fst (add_chunks failing_index_env init_store [example_chunk1]) =
     Inl (OtherError ''out of memory'') \<and>
   index (snd (add_chunks failing_index_env init_store [example_chunk1])) = None \<and>
   documents (snd (add_chunks failing_index_env init_store [example_chunk1])) = [] \<and>
   index_file (snd (add_chunks failing_index_env init_store [example_chunk1])) = None \<and>
   meta_file (snd (add_chunks failing_index_env init_store [example_chunk1])) = None \<and>
   index_file example_store = index example_store \<and>
   meta_file example_store = Some (documents example_store) \<and>
   length (documents example_store) = 2"
proof -
  let ?r1 = "add_chunks failing_encoder_env example_store [example_chunk1]"
  let ?e1 = "OtherError ''model not loaded''"
  let ?r2 = "add_chunks failing_index_env init_store [example_chunk1]"
  let ?e2 = "OtherError ''out of memory''"
  note t1 = C3_add_atomic[of "[example_chunk1]" failing_encoder_env example_store ?e1
              "[]" "[]" "snd ?r1" 0]
  have "[example_chunk1] \<noteq> [] \<and>
        encode failing_encoder_env (length (encode_calls example_store))
          (map text [example_chunk1]) = Inl ?e1"
    by (simp add: failing_encoder_env_def example_env_def)
  with t1 have f1: "fst ?r1 = Inl ?e1" by blast
  then have "?r1 = (Inl ?e1, snd ?r1)" by (metis prod.collapse)
  with t1 have u1: "index (snd ?r1) = index example_store \<and>
      documents (snd ?r1) = documents example_store \<and>
      index_file (snd ?r1) = index_file example_store \<and>
      meta_file (snd ?r1) = meta_file example_store"
    by blast
  note t2 = C3_add_atomic[of "[example_chunk1]" failing_index_env init_store ?e2
              "[0, 1]" "[]" "snd ?r2" 0]
  have "[example_chunk1] \<noteq> [] \<and> index init_store = None \<and>
        encode failing_index_env (length (encode_calls init_store))
          (map text [example_chunk1]) = Inr ([0, 1] # []) \<and>
        np_array ([0, 1] # []) = Inr ([0, 1] # []) \<and>
        index_error failing_index_env (Suc (length (encode_calls init_store)))
          (length [0, 1 :: real]) = Some ?e2"
    by (simp add: example_defs store_defs)
  with t2 have f2: "fst ?r2 = Inl ?e2" by blast
  then have "?r2 = (Inl ?e2, snd ?r2)" by (metis prod.collapse)
  with t2 have "index (snd ?r2) = index init_store \<and>
      documents (snd ?r2) = documents init_store \<and>
      index_file (snd ?r2) = index_file init_store \<and>
      meta_file (snd ?r2) = meta_file init_store"
    by blast
  then have u2: "index (snd ?r2) = None \<and> documents (snd ?r2) = [] \<and>
      index_file (snd ?r2) = None \<and> meta_file (snd ?r2) = None"
    by (simp add: init_store_def load_def)
  note t3 = C3_add_atomic[of "[example_chunk1, example_chunk2]" example_env init_store ?e1
              "[]" "[]" example_store 2]
  from t3 example_add have u3: "index_file example_store = index example_store \<and>
      meta_file example_store = Some (documents example_store) \<and>
      length (documents example_store) = 2"
    by (simp add: init_store_def load_def)
  from f1 u1 f2 u2 u3 show ?thesis by blast
qed

theorem C4_query_witness:
  "search_contract example_env \<and>
   query example_env init_store ''What is the motor current?'' None = (Inr [], init_store) \<and>
   length (projr (fst (query example_env example_store ''What is the motor current?'' (Some 5))))
     \<le> min (nat 5) (total_chunks (get_collection_stats example_env example_store)) \<and>
   sorted_wrt (\<lambda>a b. b \<le> a)
     (map distance
        (projr (fst (query example_env example_store ''What is the motor current?'' (Some 5))))) \<and>
   (\<exists>qv n. [example_retrieved] =
      map (result_of (documents stale_store))
        (filter (in_range (documents stale_store))
           (search example_env [[0, 1], [1, 0]] qv n))) \<and>
   search example_env [[0, 1], [1, 0]] [1, 0] 2 = [(0, 0), (- 1, 1)] \<and>
   \<not> in_range (documents stale_store) (- 1, 1) \<and>
   fst (query example_env stale_store ''What is the motor current?'' (Some 5)) =
     Inr [example_retrieved]"
proof -
  let ?q = "''What is the motor current?''"
  let ?r = "query example_env example_store ?q (Some 5)"
  let ?t = "query example_env stale_store ?q (Some 5)"
  note c = search_contract_example
  have "index init_store = None \<or> (\<exists>ix. index init_store = Some ix \<and> ntotal ix = 0)"
    by (simp add: init_store_def load_def)
  with C4_query[OF c, of init_store ?q None 5 "[]" init_store "\<lparr>dimension = 0, vectors = []\<rparr>"
         "[]" init_store]
  have p1: "query example_env init_store ?q None = (Inr [], init_store)" by blast
  have "fst ?r = Inr (projr (fst ?r))" by (simp add: example_query)
  then have "?r = (Inr (projr (fst ?r)), snd ?r)" by (metis prod.collapse)
  then have "(0::int) < 5 \<and> ?r = (Inr (projr (fst ?r)), snd ?r)" by simp
  with C4_query[OF c, of example_store ?q None 5 "projr (fst ?r)" "snd ?r"
         "\<lparr>dimension = 0, vectors = []\<rparr>" "[]" init_store]
  have p2: "length (projr (fst ?r))
              \<le> min (nat 5) (total_chunks (get_collection_stats example_env example_store)) \<and>
            sorted_wrt (\<lambda>a b. b \<le> a) (map distance (projr (fst ?r)))"
    by blast
  have "?t = (Inr [example_retrieved], snd ?t)"
    using stale_query by (metis prod.collapse)
  moreover have "index stale_store = Some \<lparr>dimension = 2, vectors = [[0, 1], [1, 0]]\<rparr> \<and>
                 ntotal \<lparr>dimension = 2, vectors = [[0, 1], [1, 0]]\<rparr> \<noteq> 0"
    by (simp add: stale_store_def example_store_def ntotal_def)
  ultimately have p3: "\<exists>qv n. [example_retrieved] =
      map (result_of (documents stale_store))
        (filter (in_range (documents stale_store))
           (search example_env (vectors \<lparr>dimension = 2, vectors = [[0, 1], [1, 0]]\<rparr>) qv n))"
    using C4_query[OF c, of stale_store ?q "Some 5" 5 "[]" init_store
            "\<lparr>dimension = 2, vectors = [[0, 1], [1, 0]]\<rparr>" "[example_retrieved]" "snd ?t"]
    by blast
  have hits: "search example_env [[0, 1], [1, 0]] [1, 0] 2 = [(0, 0), (- 1, 1)]"
    by (simp add: example_env_def upt_rec)
  have stale: "\<not> in_range (documents stale_store) (- 1, 1)"
    by (simp add: in_range_def stale_store_def)
  have "index stale_store = Some \<lparr>dimension = 2, vectors = [[0, 1], [1, 0]]\<rparr> \<and>
        ntotal \<lparr>dimension = 2, vectors = [[0, 1], [1, 0]]\<rparr> \<noteq> 0 \<and>
        encode example_env (length (encode_calls stale_store)) [?q] = Inr ([1, 0] # []) \<and>
        length [1, 0 :: real] = dimension \<lparr>dimension = 2, vectors = [[0, 1], [1, 0]]\<rparr> \<and>
        0 < (case Some (5::int) of None \<Rightarrow> top_k_results (settings example_env)
             | Some k \<Rightarrow> if k = 0 then top_k_results (settings example_env) else k)"
    by (simp add: example_defs ntotal_def)
  with C4_query[OF c, where s = stale_store and question = ?q and top_k = "Some 5"
         and ix = "\<lparr>dimension = 2, vectors = [[0, 1], [1, 0]]\<rparr>" and v = "[1, 0]" and vs = "[]"]
  have "fst ?t =
     Inr (map (result_of (documents stale_store))
            (filter (in_range (documents stale_store))
               (search example_env (vectors \<lparr>dimension = 2, vectors = [[0, 1], [1, 0]]\<rparr>)
                  (normalize_L2 example_env [1, 0])
                  (nat (min (case Some (5::int) of None \<Rightarrow> top_k_results (settings example_env)
                             | Some k \<Rightarrow>
                                 if k = 0 then top_k_results (settings example_env) else k)
                            (int (ntotal \<lparr>dimension = 2, vectors = [[0, 1], [1, 0]]\<rparr>)))))))"
    by blast
  then have p4: "fst ?t = Inr [example_retrieved]"
    by (simp add: example_defs normalize_L2_def ntotal_def in_range_def result_of_def upt_rec)
  from c p1 p2 p3 hits stale p4 show ?thesis by simp
qed

theorem C5_fallback_witness:
  "generate_answer (init_providers both_keys gemini_down) ''What is the motor current?''
     [example_retrieved] None =
     (Inr \<lparr>answer = ''The motor draws 5A.'', references = [''The motor draws 5A.'']\<rparr>,
      [''gemini'', ''openai'']) \<and>
   generate_answer (init_providers both_keys all_down) ''What is the motor current?''
     [example_retrieved] None =
     (Inl (RuntimeError ''All LLM providers failed. Last error: timeout''),
      [''gemini'', ''openai''])"
proof -
  let ?P1 = "init_providers both_keys gemini_down"
  let ?P2 = "init_providers both_keys all_down"
  have ne: "[example_retrieved] \<noteq> []" by simp
  have P1: "?P1 = [GeminiProvider both_keys gemini_down, OpenAIProvider both_keys gemini_down]"
    by (simp add: init_providers_def GeminiProvider_def OpenAIProvider_def both_keys_def
          example_settings_def)
  have P2: "?P2 = [GeminiProvider both_keys all_down, OpenAIProvider both_keys all_down]"
    by (simp add: init_providers_def GeminiProvider_def OpenAIProvider_def both_keys_def
          example_settings_def)
  have s1: "select_providers ?P1 None = Inr ?P1" by (simp add: select_providers_def)
  have s2: "select_providers ?P2 None = Inr ?P2" by (simp add: select_providers_def)
  have n1: "?P1 \<noteq> []" by (simp add: P1)
  have n2: "?P2 \<noteq> []" by (simp add: P2)
  from C5_fallback[OF ne n1 s1 refl, of "''What is the motor current?''"]
  have a: "generate_answer ?P1 ''What is the motor current?'' [example_retrieved] None =
     (Inr \<lparr>answer = ''The motor draws 5A.'', references = [''The motor draws 5A.'']\<rparr>,
      [''gemini'', ''openai''])"
    unfolding P1
    by (simp add: GeminiProvider_def OpenAIProvider_def provider_fails_def gemini_down_def
          example_retrieved_def)
  from C5_fallback[OF ne n2 s2 refl, of "''What is the motor current?''"]
  have b: "generate_answer ?P2 ''What is the motor current?'' [example_retrieved] None =
     (Inl (RuntimeError ''All LLM providers failed. Last error: timeout''),
      [''gemini'', ''openai''])"
    unfolding P2
    by (simp add: GeminiProvider_def OpenAIProvider_def provider_fails_def all_down_def
          all_failed_message_def)
  from a b show ?thesis by simp
qed

theorem C7_configuration_errors_witness:
  "generate_answer [] ''What is the motor current?'' [example_retrieved] None =
     (Inl (RuntimeError NO_PROVIDERS_MESSAGE), []) \<and>
   generate_answer (init_providers example_settings gemini_down) ''What is the motor current?''
     [example_retrieved] (Some ''openai'') =
     (Inl (RuntimeError (not_available_message ''openai'')), [])"
proof -
  let ?P = "init_providers example_settings gemini_down"
  have ne: "[example_retrieved] \<noteq> []" by simp
  have P: "?P = [GeminiProvider example_settings gemini_down]"
    by (simp add: init_providers_def GeminiProvider_def OpenAIProvider_def example_settings_def)
  have "?P \<noteq> [] \<and> ''openai'' \<noteq> [] \<and> ''openai'' \<notin> set (map name ?P)"
    by (simp add: P GeminiProvider_def)
  with C7_configuration_errors[OF ne, of ?P "''What is the motor current?''" None "''openai''"]
  have a: "generate_answer ?P ''What is the motor current?'' [example_retrieved] (Some ''openai'') =
     (Inl (RuntimeError (not_available_message ''openai'')), [])"
    by blast
  from C7_configuration_errors[OF ne, of "[]" "''What is the motor current?''" None "''openai''"]
  have b: "generate_answer [] ''What is the motor current?'' [example_retrieved] None =
     (Inl (RuntimeError NO_PROVIDERS_MESSAGE), [])"
    by blast
  from a b show ?thesis by simp
qed

theorem C8_delete_absent_witness:
  "delete_document example_env example_store ''missing.pdf'' = (Inr False, example_store)"
proof -
  have "\<forall>doc \<in> set (documents example_store). source (metadata doc) \<noteq> Some ''missing.pdf''"
    by (simp add: example_store_def example_doc1_def example_doc2_def)
  then show ?thesis by (rule C8_delete_absent)
qed

theorem C9_delete_removes_source_witness:
  "delete_document example_env example_store ''b.pdf'' = (Inr True, single_store) \<and>
   ''b.pdf'' \<notin> set (list_documents single_store) \<and>
   list_documents example_store = [''b.pdf'', ''spec.pdf''] \<and>
   delete_document example_env single_store ''spec.pdf'' =
     (Inr True, reset_collection single_store)"
proof -
  have h1: "index example_store = None \<longrightarrow> documents example_store = []"
    by (simp add: example_store_def)
  have h2: "index single_store = None \<longrightarrow> documents single_store = []"
    by (simp add: single_store_def)
  from C9_delete_removes_source[OF h1, of example_env "''b.pdf''" True single_store] example_delete
  have a: "''b.pdf'' \<notin> set (list_documents single_store)" by blast
  have "documents single_store \<noteq> [] \<and>
          (\<forall>doc \<in> set (documents single_store). source (metadata doc) = Some ''spec.pdf'')"
    by (simp add: single_store_def example_doc1_def)
  with C9_delete_removes_source[OF h2, of example_env "''spec.pdf''" True single_store]
  have b: "delete_document example_env single_store ''spec.pdf'' =
     (Inr True, reset_collection single_store)"
    by blast
  have c: "list_documents example_store = [''b.pdf'', ''spec.pdf'']"
    by (simp add: list_documents_def example_store_def example_doc1_def example_doc2_def Let_def)
  from a b c example_delete show ?thesis by simp
qed

theorem C10_add_empty_witness:
  "add_chunks failing_encoder_env example_store [] = (Inr 0, example_store) \<and>
   encode_calls (snd (add_chunks failing_encoder_env example_store [])) =
     encode_calls example_store"
  using C10_add_empty[of failing_encoder_env example_store] by simp

end
